theory Spec2Isabelle
  imports Complex_Main "HOL-Library.Word"
begin

unbundle bit_operations_syntax

section \<open>Shared data (jumbomem.h)\<close>

text \<open>
  Addresses and \<open>size_t\<close>/\<open>unsigned long\<close> quantities are 64-bit words (LP64);
  page numbers are stored as \<open>uint32_t\<close>.  A nullable \<open>char *\<close> result is an
  \<open>option\<close>: \<open>None\<close> is \<open>NULL\<close>.  Counters that index an array and are kept
  below its length by the code (\<open>num_used\<close>, \<open>next_evict\<close>) are natural numbers.
\<close>

type_synonym addr = "64 word"

datatype error =
    Abort string        \<comment> \<open>\<open>jm_abort(...)\<close>: the process exits\<close>
  | Undefined string    \<comment> \<open>undefined behaviour of the C program (out-of-bounds read, division by zero)\<close>
  | Diverges            \<comment> \<open>a loop of the source that never ends\<close>
  | OutOfDraws          \<comment> \<open>the supplied answers of the environment are used up\<close>

datatype jumbomem_prefetch = PREFETCH_NONE | PREFETCH_NEXT | PREFETCH_DELTA

record jumbomem_globals =
  pagesize :: "64 word"
  ospagesize :: "64 word"
  memregion :: addr
  extent :: "64 word"
  local_pages :: "64 word"
  prefetch_type :: jumbomem_prefetch
  async_evict :: int
  extra_memcpy :: int
  is_internal :: int

definition PROT_READ :: "32 word" where "PROT_READ = 1"
definition PROT_WRITE :: "32 word" where "PROT_WRITE = 2"

text \<open>\<open>GET_PAGE_NUMBER(ADDR) = (uintptr_t)((ADDR)-jm_globals.memregion)/jm_globals.pagesize\<close>\<close>

definition GET_PAGE_NUMBER :: "jumbomem_globals \<Rightarrow> addr \<Rightarrow> 64 word" where
  "GET_PAGE_NUMBER g a = (a - memregion g) div pagesize g"

text \<open>The address \<open>jm_globals.memregion + pagenum*jm_globals.pagesize\<close> of a recorded page.\<close>

definition page_address :: "jumbomem_globals \<Rightarrow> 32 word \<Rightarrow> addr" where
  "page_address g pn = memregion g + ucast pn * pagesize g"

text \<open>What \<open>jm_find_replacement_page\<close> hands back through its three out-parameters.
  \<open>clean = None\<close>: the callee did not write \<open>*clean\<close>.\<close>

record replacement =
  newprot :: "32 word"
  evictable_page :: "addr option"
  clean :: "int option"

text \<open>A small configuration used to run the definitions: two local pages of 4096 bytes.\<close>

definition example_globals :: jumbomem_globals where
  "example_globals =
     \<lparr> pagesize = 4096, ospagesize = 4096, memregion = 0x100000, extent = 0x10000,
       local_pages = 2, prefetch_type = PREFETCH_NONE, async_evict = 0, extra_memcpy = 0,
       is_internal = 0 \<rparr>"

section \<open>FIFO page replacement (pagereplace\_fifo.c)\<close>

record fifo_state =
  fifo_used_pages :: "32 word list"
  fifo_num_used :: nat
  fifo_total_pages :: nat
  fifo_next_evict :: nat

text \<open>\<open>jm_initialize_pagereplace\<close>: the array is \<open>malloc\<close>'ed; no slot is read
  before the fill phase has written it, so its initial contents are taken as zeros.  The
  function also switches prefetching off (\<open>jm_globals.prefetch_type = PREFETCH_NONE\<close>);
  that write is to the globals, which are no part of the policy state returned here.\<close>

definition fifo_initialize_pagereplace :: "jumbomem_globals \<Rightarrow> error + fifo_state" where
  "fifo_initialize_pagereplace g =
     (if unat (local_pages g) < 1
      then Inl (Abort ''A minimum of one local page is needed for FIFO page-replacement to function properly'')
      else Inr \<lparr> fifo_used_pages = replicate (unat (local_pages g)) 0,
                 fifo_num_used = 0,
                 fifo_total_pages = unat (local_pages g),
                 fifo_next_evict = 0 \<rparr>)"


definition fifo_find_replacement_page ::
  "jumbomem_globals \<Rightarrow> fifo_state \<Rightarrow> addr \<Rightarrow> replacement \<times> fifo_state" where
  "fifo_find_replacement_page g s faulted_page =
     (if fifo_num_used s < fifo_total_pages s
      then (\<lparr> newprot = PROT_READ OR PROT_WRITE, evictable_page = None, clean = Some 0 \<rparr>,
            s\<lparr> fifo_used_pages := (fifo_used_pages s)[fifo_num_used s := ucast (GET_PAGE_NUMBER g faulted_page)],
               fifo_num_used := fifo_num_used s + 1 \<rparr>)
      else (\<lparr> newprot = PROT_READ OR PROT_WRITE,
              evictable_page = Some (page_address g (fifo_used_pages s ! fifo_next_evict s)),
              clean = Some 0 \<rparr>,
            s\<lparr> fifo_used_pages := (fifo_used_pages s)[fifo_next_evict s := ucast (GET_PAGE_NUMBER g faulted_page)],
               fifo_next_evict := (fifo_next_evict s + 1) mod fifo_total_pages s \<rparr>))"




text \<open>What holds of every state reached from \<open>jm_initialize_pagereplace\<close>: the counters
  stay inside the array, so no access of the model falls outside it.\<close>

definition fifo_inv :: "fifo_state \<Rightarrow> bool" where
  "fifo_inv s \<longleftrightarrow> length (fifo_used_pages s) = fifo_total_pages s \<and> fifo_num_used s \<le> fifo_total_pages s
                \<and> fifo_next_evict s < fifo_total_pages s"

section \<open>Random page replacement (pagereplace\_random.c)\<close>

definition BIGPRIME1 :: "64 word" where "BIGPRIME1 = 34359738641"
definition BIGPRIME2 :: "64 word" where "BIGPRIME2 = 1152921504606847229"

text \<open>
  \<open>((random() + BIGPRIME1) * BIGPRIME2) % n\<close> with \<open>n\<close> an \<open>unsigned long\<close>: the
  product is computed in 64 bits (two's-complement wrap-around, as the compiled code does) and
  reduced as an unsigned number.  \<open>r\<close> is what \<open>random()\<close> returned.
\<close>

definition scaled_random :: "64 word \<Rightarrow> nat \<Rightarrow> nat" where
  "scaled_random r n = unat ((r + BIGPRIME1) * BIGPRIME2) mod n"

record random_state =
  rnd_prevpage :: "addr option"
  rnd_used_pages :: "32 word list"
  rnd_num_used :: nat
  rnd_total_pages :: nat

text \<open>\<open>jm_initialize_pagereplace\<close>: the policy state.  The function also switches
  prefetching off (\<open>jm_globals.prefetch_type = PREFETCH_NONE\<close>), a write to the globals,
  which are no part of the state returned here.\<close>

definition random_initialize_pagereplace :: "jumbomem_globals \<Rightarrow> error + random_state" where
  "random_initialize_pagereplace g =
     (if unat (local_pages g) < 2
      then Inl (Abort ''A minimum of two local pages is needed for random page-replacement to function properly'')
      else Inr \<lparr> rnd_prevpage = None,
                 rnd_used_pages = replicate (unat (local_pages g)) 0,
                 rnd_num_used = 0,
                 rnd_total_pages = unat (local_pages g) \<rparr>)"

text \<open>
  The \<open>do ... while (*evictable_page == prevpage)\<close> loop.  Each round consumes one answer of
  \<open>random()\<close>; the answers are supplied as a list, and the loop gives \<open>OutOfDraws\<close> when
  they are used up before a page other than \<open>prevpage\<close> was drawn.  The result is the
  offset drawn, the victim's address and the answers left over.
\<close>

fun random_draw ::
  "jumbomem_globals \<Rightarrow> random_state \<Rightarrow> 64 word list \<Rightarrow> error + (nat \<times> addr \<times> 64 word list)" where
  "random_draw g s [] = Inl OutOfDraws"
| "random_draw g s (r # rs) =
     (if rnd_num_used s = 0 then Inl (Undefined ''division by zero'')
      else let randnum = scaled_random r (rnd_num_used s) in
        if length (rnd_used_pages s) \<le> randnum then Inl (Undefined ''used_pages read out of bounds'')
        else let evictable = page_address g (rnd_used_pages s ! randnum)
             in if Some evictable = rnd_prevpage s then random_draw g s rs
                else Inr (randnum, evictable, rs))"

definition random_find_replacement_page ::
  "jumbomem_globals \<Rightarrow> random_state \<Rightarrow> 64 word list \<Rightarrow> addr
     \<Rightarrow> error + (replacement \<times> random_state \<times> 64 word list)" where
  "random_find_replacement_page g s rs faulted_page =
     (if rnd_num_used s < rnd_total_pages s
      then Inr (\<lparr> newprot = PROT_READ OR PROT_WRITE, evictable_page = None, clean = Some 0 \<rparr>,
                s\<lparr> rnd_used_pages := (rnd_used_pages s)[rnd_num_used s := ucast (GET_PAGE_NUMBER g faulted_page)],
                   rnd_num_used := rnd_num_used s + 1 \<rparr>,
                rs)
      else case random_draw g s rs of
             Inl e \<Rightarrow> Inl e
           | Inr (randnum, evictable, rs') \<Rightarrow>
               Inr (\<lparr> newprot = PROT_READ OR PROT_WRITE, evictable_page = Some evictable, clean = Some 0 \<rparr>,
                    s\<lparr> rnd_used_pages := (rnd_used_pages s)[randnum := ucast (GET_PAGE_NUMBER g faulted_page)],
                       rnd_prevpage := Some faulted_page \<rparr>,
                    rs'))"

text \<open>A full cache of two frames holding pages 0 and 1.\<close>

definition example_random_state :: random_state where
  "example_random_state =
     \<lparr> rnd_prevpage = None, rnd_used_pages = [0, 1], rnd_num_used = 2, rnd_total_pages = 2 \<rparr>"

definition random_inv :: "random_state \<Rightarrow> bool" where
  "random_inv s \<longleftrightarrow> length (rnd_used_pages s) = rnd_total_pages s \<and> rnd_num_used s \<le> rnd_total_pages s
                  \<and> 2 \<le> rnd_total_pages s"

text \<open>An answer of \<open>random()\<close> that ends the rejection loop: it selects a page other than
  the one that was brought in last.\<close>

definition random_accepts :: "jumbomem_globals \<Rightarrow> random_state \<Rightarrow> 64 word \<Rightarrow> bool" where
  "random_accepts g s r \<longleftrightarrow>
     Some (page_address g (rnd_used_pages s ! scaled_random r (rnd_num_used s))) \<noteq> rnd_prevpage s"

section \<open>The page table (pagetable.c)\<close>

text \<open>
  \<open>used_pages\<close> is the array of page-table entries (a page number followed by
  \<open>payload_bytes\<close> bytes of payload).  A \<open>struct page_bucket\<close> points to one entry and that
  pointer is set once, when the bucket is allocated or recycled for the same entry, so a bucket
  is identified with the index of its entry; a hash chain is the list of its buckets, head first.
  \<open>num_used\<close> and \<open>table_size\<close> are \<open>size_t\<close>.
\<close>

definition HASH_TABLE_SIZE :: nat where "HASH_TABLE_SIZE = 1000003"

record page_table_entry =
  pagenum :: "32 word"
  payload :: "8 word list"

record page_table =
  pt_used_pages :: "page_table_entry list"
  page_hash :: "nat \<Rightarrow> nat list"
  dead_bucket :: "nat option"
  payload_bytes :: nat
  pt_num_used :: "64 word"
  table_size :: "64 word"

text \<open>\<open>(((unsigned long)pagenum + BIGPRIME2) * BIGPRIME1) % HASH_TABLE_SIZE\<close>\<close>

definition hash_page_number :: "32 word \<Rightarrow> nat" where
  "hash_page_number pn = unat ((ucast pn + BIGPRIME2) * BIGPRIME1 :: 64 word) mod HASH_TABLE_SIZE"

text \<open>Walks the chain for the first bucket whose entry has the page number.\<close>

fun find_bucket :: "page_table_entry list \<Rightarrow> 32 word \<Rightarrow> nat list \<Rightarrow> nat option" where
  "find_bucket used pn [] = None"
| "find_bucket used pn (b # bs) = (if pagenum (used ! b) = pn then Some b else find_bucket used pn bs)"

definition find_page_by_number :: "page_table \<Rightarrow> 32 word \<Rightarrow> nat option" where
  "find_page_by_number pt pn = find_bucket (pt_used_pages pt) pn (page_hash pt (hash_page_number pn))"

text \<open>The search loop of \<open>delete_page_by_number\<close> behind the head of the chain: the chain
  with the first matching bucket unlinked, and that bucket.\<close>

fun unlink_bucket :: "page_table_entry list \<Rightarrow> 32 word \<Rightarrow> nat list \<Rightarrow> (nat list \<times> nat) option" where
  "unlink_bucket used pn [] = None"
| "unlink_bucket used pn (b # bs) =
     (if pagenum (used ! b) = pn then Some (bs, b)
      else case unlink_bucket used pn bs of
             None \<Rightarrow> None
           | Some (bs', d) \<Rightarrow> Some (b # bs', d))"

definition delete_page_by_number :: "page_table \<Rightarrow> 32 word \<Rightarrow> error + page_table" where
  "delete_page_by_number pt pn =
     (let chain_num = hash_page_number pn in
      case page_hash pt chain_num of
        [] \<Rightarrow> Inl (Abort ''Internal error: Attempted to delete nonexistent page (empty chain)'')
      | b # bs \<Rightarrow>
          if dead_bucket pt \<noteq> None
          then Inl (Abort ''Internal error: Two page-table deletions with no intervening insertion'')
          else if pagenum (pt_used_pages pt ! b) = pn
          then Inr (pt\<lparr> page_hash := (page_hash pt)(chain_num := bs), dead_bucket := Some b \<rparr>)
          else (case unlink_bucket (pt_used_pages pt) pn bs of
                  Some (bs', d) \<Rightarrow>
                    Inr (pt\<lparr> page_hash := (page_hash pt)(chain_num := b # bs'), dead_bucket := Some d \<rparr>)
                | None \<Rightarrow> Inl (Abort ''Internal error: Attempted to delete nonexistent page'')))"

text \<open>\<open>insert_pte\<close>: the bucket (the recycled dead one or a fresh one) goes to the head of
  the chain of the entry's page number.\<close>

definition insert_pte :: "page_table \<Rightarrow> nat \<Rightarrow> page_table" where
  "insert_pte pt pte =
     (let chain_num = hash_page_number (pagenum (pt_used_pages pt ! pte))
      in pt\<lparr> page_hash := (page_hash pt)(chain_num := pte # page_hash pt chain_num),
             dead_bucket := None \<rparr>)"

text \<open>
  \<open>jm_create_page_table\<close>.  \<open>new_total_pages\<close> is a \<open>long\<close>; the sizes are those of LP64
  (\<open>sizeof(struct page_bucket *) = 8\<close>, \<open>sizeof(struct page_bucket) = 16\<close>).  The result is
  the table and the reduced \<open>jm_globals.local_pages\<close>.  \<open>have_local_pages\<close> says whether
  \<open>JM_LOCAL_PAGES\<close> is set in the environment.
\<close>

text \<open>Division of \<open>long\<close> values: C rounds the quotient towards zero.\<close>

definition long_div :: "int \<Rightarrow> int \<Rightarrow> int" where
  "long_div a b = (if (a < 0) = (b < 0) then \<bar>a\<bar> div \<bar>b\<bar> else - (\<bar>a\<bar> div \<bar>b\<bar>))"

definition jm_create_page_table ::
  "jumbomem_globals \<Rightarrow> bool \<Rightarrow> nat \<Rightarrow> error + (page_table \<times> jumbomem_globals)" where
  "jm_create_page_table g have_local_pages valuebytes =
     (let pte_bytes = 4 + valuebytes;
          new_total_pages =
            (if have_local_pages then sint (local_pages g)
             else long_div (sint (local_pages g * pagesize g - of_nat HASH_TABLE_SIZE * 8))
                            (sint (pagesize g + 16 + 8 + of_nat pte_bytes)))
      in if new_total_pages < 1
         then Inl (Abort ''Too little memory is available to cache locally even one remote page'')
         else Inr (\<lparr> pt_used_pages = replicate (nat new_total_pages) \<lparr> pagenum = 0, payload = replicate valuebytes 0 \<rparr>,
                     page_hash = (\<lambda>_. []),
                     dead_bucket = None,
                     payload_bytes = valuebytes,
                     pt_num_used = 0,
                     table_size = of_int new_total_pages \<rparr>,
                   g\<lparr> local_pages := of_int new_total_pages \<rparr>))"

text \<open>\<open>jm_page_table_insert\<close>.  \<open>extradata = None\<close> is the \<open>NULL\<close> pointer.  Writing an
  entry past the end of the array is undefined behaviour.\<close>

definition jm_page_table_insert ::
  "jumbomem_globals \<Rightarrow> page_table \<Rightarrow> addr \<Rightarrow> 8 word list option \<Rightarrow> error + page_table" where
  "jm_page_table_insert g pt address extradata =
     (if pt_num_used pt = table_size pt
      then Inl (Abort ''A page table overflowed'')
      else let pte = (case dead_bucket pt of Some b \<Rightarrow> b | None \<Rightarrow> unat (pt_num_used pt)) in
           if length (pt_used_pages pt) \<le> pte
           then Inl (Undefined ''page-table entry outside used_pages'')
           else let old = pt_used_pages pt ! pte;
                    new = \<lparr> pagenum = ucast (GET_PAGE_NUMBER g address),
                            payload = (case extradata of
                                         None \<Rightarrow> payload old
                                       | Some d \<Rightarrow> take (payload_bytes pt) d) \<rparr>;
                    pt' = insert_pte (pt\<lparr> pt_used_pages := (pt_used_pages pt)[pte := new] \<rparr>) pte
                in Inr (pt'\<lparr> pt_num_used := pt_num_used pt + 1 \<rparr>))"

definition jm_page_table_delete :: "jumbomem_globals \<Rightarrow> page_table \<Rightarrow> addr \<Rightarrow> error + page_table" where
  "jm_page_table_delete g pt address =
     (case delete_page_by_number pt (ucast (GET_PAGE_NUMBER g address)) of
        Inl e \<Rightarrow> Inl e
      | Inr pt' \<Rightarrow> Inr (pt'\<lparr> pt_num_used := pt_num_used pt' - 1 \<rparr>))"

text \<open>\<open>jm_page_table_find\<close>: the entry holding the page (its payload follows the page number), or \<open>None\<close> for \<open>NULL\<close>.\<close>

definition jm_page_table_find :: "jumbomem_globals \<Rightarrow> page_table \<Rightarrow> addr \<Rightarrow> nat option" where
  "jm_page_table_find g pt address = find_page_by_number pt (ucast (GET_PAGE_NUMBER g address))"

text \<open>\<open>jm_page_table_offset\<close> (the index is a \<open>uint32_t\<close>): the page number of entry \<open>index\<close>.\<close>

definition jm_page_table_offset :: "page_table \<Rightarrow> 32 word \<Rightarrow> error + 32 word" where
  "jm_page_table_offset pt index =
     (if pt_num_used pt \<le> ucast index
      then Inl (Abort ''Page-table offset is out-of-bounds'')
      else if length (pt_used_pages pt) \<le> unat index
      then Inl (Undefined ''page-table entry outside used_pages'')
      else Inr (pagenum (pt_used_pages pt ! unat index)))"

text \<open>A sequence of insertions and deletions, stopping at the first fatal error.\<close>

datatype pt_op = Insert addr | Delete addr

fun pt_apply :: "jumbomem_globals \<Rightarrow> page_table \<Rightarrow> pt_op \<Rightarrow> error + page_table" where
  "pt_apply g pt (Insert a) = jm_page_table_insert g pt a None"
| "pt_apply g pt (Delete a) = jm_page_table_delete g pt a"

fun pt_run :: "jumbomem_globals \<Rightarrow> page_table \<Rightarrow> pt_op list \<Rightarrow> error + page_table" where
  "pt_run g pt [] = Inr pt"
| "pt_run g pt (x # xs) = (case pt_apply g pt x of Inl e \<Rightarrow> Inl e | Inr pt' \<Rightarrow> pt_run g pt' xs)"

text \<open>Strict alternation: a deletion first, then an insertion, and so on.\<close>

fun alternating :: "pt_op list \<Rightarrow> bool" where
  "alternating [] = True"
| "alternating [Delete a] = True"
| "alternating (Delete a # Insert b # xs) = alternating xs"
| "alternating _ = False"

text \<open>A table of two entries holding pages 0 and 1: what two insertions into a fresh table
  of size two leave behind (506629 and 142190 are the hash values of page numbers 0 and 1).\<close>

definition example_page_table :: page_table where
  "example_page_table =
     \<lparr> pt_used_pages = [\<lparr> pagenum = 0, payload = [] \<rparr>, \<lparr> pagenum = 1, payload = [] \<rparr>],
       page_hash = (\<lambda>_. [])(506629 := [0], 142190 := [1]),
       dead_bucket = None,
       payload_bytes = 0,
       pt_num_used = 2,
       table_size = 2 \<rparr>"

section \<open>Not-recently-evicted page replacement (pagereplace\_nre.c)\<close>

definition DEFAULT_EVICT_COUNT :: nat where "DEFAULT_EVICT_COUNT = 32"
definition DEFAULT_RETRY_COUNT :: nat where "DEFAULT_RETRY_COUNT = 5"

record nre_state =
  nre_page_table :: page_table
  nre_num_used :: nat
  nre_total_pages :: nat
  evicted_pages :: "32 word list"
  evict_head :: nat
  evict_tail :: nat
  evict_len :: nat
  max_retries :: nat

text \<open>
  \<open>jm_initialize_pagereplace\<close>.  \<open>entries\<close> and \<open>retries\<close> are the values of
  \<open>JM_NRE_ENTRIES\<close> and \<open>JM_NRE_RETRIES\<close> (\<open>None\<close>: not set); \<open>heap\<close> is what the
  \<open>malloc\<close>'ed queue holds before \<open>evicted_pages[0]\<close> is set to \<open>(uint32_t)(-1)\<close>.
  The result is the policy state and the globals, with \<open>local_pages\<close> as
  \<open>jm_create_page_table\<close> left it and prefetching switched off
  (\<open>jm_globals.prefetch_type = PREFETCH_NONE\<close>).
\<close>

definition nre_initialize_pagereplace ::
  "jumbomem_globals \<Rightarrow> bool \<Rightarrow> nat option \<Rightarrow> nat option \<Rightarrow> 32 word list
     \<Rightarrow> error + (nre_state \<times> jumbomem_globals)" where
  "nre_initialize_pagereplace g have_local_pages entries retries heap =
     (case jm_create_page_table g have_local_pages 0 of
        Inl e \<Rightarrow> Inl e
      | Inr (pt, g') \<Rightarrow>
          if unat (local_pages g') < 2
          then Inl (Abort ''A minimum of two local pages is needed for NRE page replacement to function properly'')
          else let len = (case entries of None \<Rightarrow> DEFAULT_EVICT_COUNT | Some n \<Rightarrow> n);
                   tries = (case retries of None \<Rightarrow> DEFAULT_RETRY_COUNT | Some n \<Rightarrow> n)
               in if len = 0 then Inl (Undefined ''evicted_pages[0] written outside the allocation'')
                  else Inr (\<lparr> nre_page_table = pt,
                              nre_num_used = 0,
                              nre_total_pages = unat (local_pages g'),
                              evicted_pages = (take len (heap @ replicate len 0))[0 := - 1],
                              evict_head = 0,
                              evict_tail = 0,
                              evict_len = len,
                              max_retries = tries \<rparr>,
                            g'\<lparr> prefetch_type := PREFETCH_NONE \<rparr>))"

text \<open>
  The linear search \<open>for (i=evict_head; i!=evict_tail; i=(i+1)%evict_len)\<close> through the
  recent evictions: the index at which it stops, and whether it stopped on a match.  From an
  index below \<open>evict_len\<close> the search is back where it started after \<open>evict_len\<close> steps, so
  with that much fuel running out of it means that the loop never ends.
\<close>

fun nre_search :: "32 word list \<Rightarrow> nat \<Rightarrow> nat \<Rightarrow> nat \<Rightarrow> nat \<Rightarrow> nat \<Rightarrow> error + (nat \<times> bool)" where
  "nre_search ev tail len randnum i fuel =
     (if i = tail then Inr (i, False)
      else if length ev \<le> i then Inl (Undefined ''evicted_pages read out of bounds'')
      else if unat (ev ! i) = randnum then Inr (i, True)
      else if len = 0 then Inl (Undefined ''division by zero'')
      else case fuel of
             0 \<Rightarrow> Inl Diverges
           | Suc k \<Rightarrow> nre_search ev tail len randnum ((i + 1) mod len) k)"

text \<open>
  The loop \<open>while (retries <= max_retries)\<close>: one answer of \<open>random()\<close> per round.  The
  result is the offset drawn last, the address of the page at that offset and the answers left.
\<close>

fun nre_select ::
  "jumbomem_globals \<Rightarrow> nre_state \<Rightarrow> nat \<Rightarrow> 64 word list \<Rightarrow> error + (nat \<times> addr \<times> 64 word list)" where
  "nre_select g s retries [] = Inl OutOfDraws"
| "nre_select g s retries (r # rs) =
     (if nre_num_used s = 0 then Inl (Undefined ''division by zero'')
      else let randnum = scaled_random r (nre_num_used s) in
        case jm_page_table_offset (nre_page_table s) (of_nat randnum) of
          Inl e \<Rightarrow> Inl e
        | Inr pn \<Rightarrow>
            (case nre_search (evicted_pages s) (evict_tail s) (evict_len s) randnum
                             (evict_head s) (evict_len s) of
               Inl e \<Rightarrow> Inl e
             | Inr (i, found) \<Rightarrow>
                 let retries' = (if found then retries + 1 else retries) in
                 if length (evicted_pages s) \<le> i
                 then Inl (Undefined ''evicted_pages read out of bounds'')
                 else if unat (evicted_pages s ! i) \<noteq> randnum
                 then Inr (randnum, page_address g pn, rs)
                 else if retries' \<le> max_retries s
                 then nre_select g s retries' rs
                 else Inr (randnum, page_address g pn, rs)))"

definition nre_find_replacement_page ::
  "jumbomem_globals \<Rightarrow> nre_state \<Rightarrow> 64 word list \<Rightarrow> addr
     \<Rightarrow> error + (replacement \<times> nre_state \<times> 64 word list)" where
  "nre_find_replacement_page g s rs faulted_page =
     (if nre_num_used s < nre_total_pages s
      then (case jm_page_table_insert g (nre_page_table s) faulted_page None of
              Inl e \<Rightarrow> Inl e
            | Inr pt \<Rightarrow>
                Inr (\<lparr> newprot = PROT_READ OR PROT_WRITE, evictable_page = None, clean = Some 0 \<rparr>,
                     s\<lparr> nre_page_table := pt, nre_num_used := nre_num_used s + 1 \<rparr>,
                     rs))
      else case nre_select g s 0 rs of
             Inl e \<Rightarrow> Inl e
           | Inr (randnum, evictable, rs') \<Rightarrow>
               if length (evicted_pages s) \<le> evict_tail s
               then Inl (Undefined ''evicted_pages written out of bounds'')
               else let ev = (evicted_pages s)[evict_tail s := of_nat randnum];
                        tail = (evict_tail s + 1) mod evict_len s;
                        head = (if tail = evict_head s then (evict_head s + 1) mod evict_len s
                                else evict_head s)
                    in case jm_page_table_delete g (nre_page_table s) evictable of
                         Inl e \<Rightarrow> Inl e
                       | Inr pt \<Rightarrow>
                           (case jm_page_table_insert g pt faulted_page None of
                              Inl e \<Rightarrow> Inl e
                            | Inr pt' \<Rightarrow>
                                Inr (\<lparr> newprot = PROT_READ OR PROT_WRITE,
                                       evictable_page = Some evictable, clean = Some 0 \<rparr>,
                                     s\<lparr> nre_page_table := pt', evicted_pages := ev,
                                        evict_head := head, evict_tail := tail \<rparr>,
                                     rs')))"

text \<open>A full cache of two frames holding pages 0 and 1, with nothing evicted yet.\<close>

definition example_nre_state :: nre_state where
  "example_nre_state =
     \<lparr> nre_page_table = example_page_table, nre_num_used = 2, nre_total_pages = 2,
       evicted_pages = [- 1, 0, 0, 0], evict_head = 0, evict_tail = 0, evict_len = 4,
       max_retries = 5 \<rparr>"

section \<open>Not-recently-used page replacement (pagereplace\_nru.c)\<close>

definition DEFAULT_NRU_INTERVAL :: "64 word" where "DEFAULT_NRU_INTERVAL = 5000"

text \<open>The \<open>referenced\<close> and \<open>modified\<close> fields are \<open>int\<close>s that are only ever assigned
  0 or 1; they are modelled as booleans.\<close>

record nru_pte =
  pte_pagenum :: "32 word"
  referenced :: bool
  modified :: bool

text \<open>\<open>NRU_CLASS(PTE) = PTE->referenced*2 + PTE->modified\<close>\<close>

definition NRU_CLASS :: "nru_pte \<Rightarrow> nat" where
  "NRU_CLASS p = (if referenced p then 1 else 0) * 2 + (if modified p then 1 else 0)"

text \<open>
  As in the page table, a bucket is identified with the index of the entry of \<open>used_pages\<close>
  it points to, and so is a pointer held in \<open>pages_by_class\<close>.  \<open>class_size\<close> is the array
  \<open>unsigned long class_size[4]\<close>.
\<close>

record nru_state =
  nru_used_pages :: "nru_pte list"
  nru_page_table :: "nat \<Rightarrow> nat list"
  pages_by_class :: "nat list"
  sorted_by_class :: bool
  class_size :: "nat list"
  nru_num_used :: nat
  nru_total_pages :: nat
  nru_readwrite :: bool
  nru_interval_ms :: "64 word"
  prev_rbit_clear_time :: "64 word"
  nru_dead_bucket :: "nat option"

fun nru_find_bucket :: "nru_pte list \<Rightarrow> 32 word \<Rightarrow> nat list \<Rightarrow> nat option" where
  "nru_find_bucket used pn [] = None"
| "nru_find_bucket used pn (b # bs) =
     (if pte_pagenum (used ! b) = pn then Some b else nru_find_bucket used pn bs)"

definition nru_find_page_by_number :: "nru_state \<Rightarrow> 32 word \<Rightarrow> nat option" where
  "nru_find_page_by_number s pn =
     nru_find_bucket (nru_used_pages s) pn (nru_page_table s (hash_page_number pn))"

fun nru_unlink_bucket :: "nru_pte list \<Rightarrow> 32 word \<Rightarrow> nat list \<Rightarrow> (nat list \<times> nat) option" where
  "nru_unlink_bucket used pn [] = None"
| "nru_unlink_bucket used pn (b # bs) =
     (if pte_pagenum (used ! b) = pn then Some (bs, b)
      else case nru_unlink_bucket used pn bs of
             None \<Rightarrow> None
           | Some (bs', d) \<Rightarrow> Some (b # bs', d))"

definition nru_delete_page_by_number :: "nru_state \<Rightarrow> 32 word \<Rightarrow> error + nru_state" where
  "nru_delete_page_by_number s pn =
     (let chain_num = hash_page_number pn in
      case nru_page_table s chain_num of
        [] \<Rightarrow> Inl (Abort ''Internal error: Attempted to delete nonexistent page (empty chain)'')
      | b # bs \<Rightarrow>
          if nru_dead_bucket s \<noteq> None
          then Inl (Abort ''Internal error: Two page-table deletions with no intervening insertion'')
          else if pte_pagenum (nru_used_pages s ! b) = pn
          then Inr (s\<lparr> nru_page_table := (nru_page_table s)(chain_num := bs), nru_dead_bucket := Some b \<rparr>)
          else (case nru_unlink_bucket (nru_used_pages s) pn bs of
                  Some (bs', d) \<Rightarrow>
                    Inr (s\<lparr> nru_page_table := (nru_page_table s)(chain_num := b # bs'),
                           nru_dead_bucket := Some d \<rparr>)
                | None \<Rightarrow> Inl (Abort ''Internal error: Attempted to delete nonexistent page'')))"

definition nru_insert_pte :: "nru_state \<Rightarrow> nat \<Rightarrow> nru_state" where
  "nru_insert_pte s pte =
     (let chain_num = hash_page_number (pte_pagenum (nru_used_pages s ! pte))
      in s\<lparr> nru_page_table := (nru_page_table s)(chain_num := pte # nru_page_table s chain_num),
            nru_dead_bucket := None \<rparr>)"

text \<open>
  \<open>sort_pages_by_class\<close>.  The first loop counts the classes of the entries that
  \<open>pages_by_class[0..num_used)\<close> points to; the second places the entries
  \<open>used_pages[0..num_used)\<close> class by class.  An access outside an array is undefined behaviour.
\<close>

fun nru_count_classes :: "nru_pte list \<Rightarrow> nat list \<Rightarrow> nat list \<Rightarrow> nat list \<Rightarrow> error + nat list" where
  "nru_count_classes used pbc [] cs = Inr cs"
| "nru_count_classes used pbc (i # is) cs =
     (if length pbc \<le> i \<or> length used \<le> pbc ! i
      then Inl (Undefined ''pages_by_class read out of bounds'')
      else let c = NRU_CLASS (used ! (pbc ! i))
           in nru_count_classes used pbc is (cs[c := cs ! c + 1]))"

fun nru_place_pages :: "nru_pte list \<Rightarrow> nat list \<Rightarrow> nat list \<Rightarrow> nat list \<Rightarrow> error + nat list" where
  "nru_place_pages used [] class_offset pbc = Inr pbc"
| "nru_place_pages used (i # is) class_offset pbc =
     (if length used \<le> i then Inl (Undefined ''used_pages read out of bounds'')
      else let c = NRU_CLASS (used ! i) in
        if length pbc \<le> class_offset ! c
        then Inl (Undefined ''pages_by_class written out of bounds'')
        else nru_place_pages used is (class_offset[c := class_offset ! c + 1])
                             (pbc[class_offset ! c := i]))"

definition sort_pages_by_class :: "nru_state \<Rightarrow> error + nru_state" where
  "sort_pages_by_class s =
     (if sorted_by_class s then Inr s
      else case nru_count_classes (nru_used_pages s) (pages_by_class s) [0..<nru_num_used s] [0, 0, 0, 0] of
             Inl e \<Rightarrow> Inl e
           | Inr cs \<Rightarrow>
               let class_offset = [0, cs ! 0, cs ! 1 + cs ! 0, cs ! 2 + (cs ! 1 + cs ! 0)]
               in case nru_place_pages (nru_used_pages s) [0..<nru_num_used s] class_offset (pages_by_class s) of
                    Inl e \<Rightarrow> Inl e
                  | Inr pbc \<Rightarrow>
                      Inr (s\<lparr> class_size := cs, pages_by_class := pbc, sorted_by_class := True \<rparr>))"

text \<open>\<open>maybe_clear_reference_bits\<close>; \<open>now\<close> is \<open>jm_current_time()/1000\<close>.\<close>

definition maybe_clear_reference_bits :: "nru_state \<Rightarrow> 64 word \<Rightarrow> nru_state" where
  "maybe_clear_reference_bits s now =
     (if now - prev_rbit_clear_time s < nru_interval_ms s then s
      else s\<lparr> nru_used_pages := map (\<lambda>p. p\<lparr> referenced := False \<rparr>) (take (nru_num_used s) (nru_used_pages s))
                                  @ drop (nru_num_used s) (nru_used_pages s),
              sorted_by_class := False,
              prev_rbit_clear_time := now \<rparr>)"

text \<open>
  \<open>jm_initialize_pagereplace\<close>.  \<open>rw\<close> is the value of \<open>JM_NRU_RW\<close> and \<open>interval\<close> that
  of \<open>JM_NRU_INTERVAL\<close> (\<open>None\<close>: not set).  \<open>sizeof(PAGE_TABLE_ENTRY) = 12\<close>.
\<close>

definition nru_initialize_pagereplace ::
  "jumbomem_globals \<Rightarrow> bool \<Rightarrow> bool option \<Rightarrow> 64 word option \<Rightarrow> 64 word
     \<Rightarrow> error + (nru_state \<times> jumbomem_globals)" where
  "nru_initialize_pagereplace g have_local_pages rw interval now =
     (let new_total_pages =
            (if have_local_pages then sint (local_pages g)
             else long_div (sint (local_pages g * pagesize g - of_nat HASH_TABLE_SIZE * 8))
                            (sint (pagesize g + 16 + 8 + 12)))
      in if new_total_pages < 1
         then Inl (Abort ''A minimum of one local page is needed for NRU page-replacement to function properly'')
         else Inr (\<lparr> nru_used_pages = replicate (nat new_total_pages)
                                         \<lparr> pte_pagenum = 0, referenced = False, modified = False \<rparr>,
                     nru_page_table = (\<lambda>_. []),
                     pages_by_class = replicate (nat new_total_pages) 0,
                     sorted_by_class = False,
                     class_size = [0, 0, 0, 0],
                     nru_num_used = 0,
                     nru_total_pages = nat new_total_pages,
                     nru_readwrite = (case rw of None \<Rightarrow> True | Some b \<Rightarrow> b),
                     nru_interval_ms = (case interval of None \<Rightarrow> DEFAULT_NRU_INTERVAL | Some i \<Rightarrow> i),
                     prev_rbit_clear_time = now,
                     nru_dead_bucket = None \<rparr>,
                   g\<lparr> local_pages := of_int new_total_pages \<rparr>))"

text \<open>\<open>jm_page_is_resident\<close>: the return value, the protection written to \<open>*protflags\<close>
  (if \<open>protflags\<close> is not \<open>NULL\<close> and the page is resident) and the new state.\<close>

definition nru_page_is_resident ::
  "jumbomem_globals \<Rightarrow> nru_state \<Rightarrow> 64 word \<Rightarrow> addr \<Rightarrow> bool \<Rightarrow> int \<times> 32 word option \<times> nru_state" where
  "nru_page_is_resident g s now rounded_addr want_protflags =
     (let s1 = maybe_clear_reference_bits s now in
      case nru_find_page_by_number s1 (ucast (GET_PAGE_NUMBER g rounded_addr)) of
        None \<Rightarrow> (0, None, s1)
      | Some pte \<Rightarrow>
          if want_protflags
          then (1, Some (PROT_READ OR PROT_WRITE),
                s1\<lparr> nru_used_pages := (nru_used_pages s1)[pte := (nru_used_pages s1 ! pte)
                                           \<lparr> referenced := True, modified := True \<rparr>],
                    sorted_by_class := False \<rparr>)
          else (1, None, s1))"

text \<open>The loop \<open>for (class=0; class<4 && class_size[class]==0; class++)\<close>: the
  smallest-numbered class recorded as non-empty, or 4.\<close>

definition nru_smallest_class :: "nat list \<Rightarrow> nat" where
  "nru_smallest_class cs =
     (if cs ! 0 \<noteq> 0 then 0 else if cs ! 1 \<noteq> 0 then 1 else if cs ! 2 \<noteq> 0 then 2
      else if cs ! 3 \<noteq> 0 then 3 else 4)"

text \<open>
  The selection of the page frame to evict (the \<open>else\<close> branch of
  \<open>jm_find_replacement_page\<close> up to the second assignment of \<open>pframe\<close>): the frame and the
  state, which \<open>sort_pages_by_class\<close> may have changed.  \<open>r\<close> is what \<open>random()\<close> returned.
\<close>

definition nru_choose_victim :: "nru_state \<Rightarrow> 64 word \<Rightarrow> error + (nat \<times> nru_state)" where
  "nru_choose_victim s r =
     (let class = nru_smallest_class (class_size s) in
      if length (class_size s) \<le> class
      then Inl (Undefined ''class_size read out of bounds'')
      else let random_offset = scaled_random r (class_size s ! class) in
        if length (pages_by_class s) \<le> random_offset \<or> length (nru_used_pages s) \<le> pages_by_class s ! random_offset
        then Inl (Undefined ''pages_by_class read out of bounds'')
        else let pframe = pages_by_class s ! random_offset in
          if NRU_CLASS (nru_used_pages s ! pframe) \<noteq> class
          then (case sort_pages_by_class s of
                  Inl e \<Rightarrow> Inl e
                | Inr s' \<Rightarrow>
                    if length (nru_used_pages s') \<le> pages_by_class s' ! random_offset
                    then Inl (Undefined ''pages_by_class read out of bounds'')
                    else Inr (pages_by_class s' ! random_offset, s'))
          else Inr (pframe, s))"

text \<open>The common tail of \<open>jm_find_replacement_page\<close>: the frame takes the faulted page.\<close>

definition nru_record_page ::
  "jumbomem_globals \<Rightarrow> nru_state \<Rightarrow> nat \<Rightarrow> addr \<Rightarrow> 32 word \<times> nru_state" where
  "nru_record_page g s pframe faulted_page =
     (let used = (nru_used_pages s)[pframe := (nru_used_pages s ! pframe)
                    \<lparr> pte_pagenum := ucast (GET_PAGE_NUMBER g faulted_page), referenced := True \<rparr>];
          s1 = (nru_insert_pte (s\<lparr> nru_used_pages := used \<rparr>) pframe)\<lparr> sorted_by_class := False \<rparr>
      in if nru_readwrite s
         then (PROT_READ OR PROT_WRITE,
               s1\<lparr> nru_used_pages := (nru_used_pages s1)[pframe := (nru_used_pages s1 ! pframe)\<lparr> modified := True \<rparr>] \<rparr>)
         else (PROT_READ,
               s1\<lparr> nru_used_pages := (nru_used_pages s1)[pframe := (nru_used_pages s1 ! pframe)\<lparr> modified := False \<rparr>] \<rparr>))"

definition nru_find_replacement_page ::
  "jumbomem_globals \<Rightarrow> nru_state \<Rightarrow> 64 word \<Rightarrow> 64 word \<Rightarrow> addr \<Rightarrow> error + (replacement \<times> nru_state)" where
  "nru_find_replacement_page g s now r faulted_page =
     (let s1 = maybe_clear_reference_bits s now in
      if nru_num_used s1 < nru_total_pages s1
      then (if length (nru_used_pages s1) \<le> nru_num_used s1 \<or> length (pages_by_class s1) \<le> nru_num_used s1
            then Inl (Undefined ''used_pages written out of bounds'')
            else let pframe = nru_num_used s1;
                     s2 = s1\<lparr> pages_by_class := (pages_by_class s1)[nru_num_used s1 := pframe],
                             nru_num_used := nru_num_used s1 + 1 \<rparr>;
                     (prot, s3) = nru_record_page g s2 pframe faulted_page
                 in Inr (\<lparr> newprot = prot, evictable_page = None, clean = None \<rparr>, s3))
      else case nru_choose_victim s1 r of
             Inl e \<Rightarrow> Inl e
           | Inr (pframe, s2) \<Rightarrow>
               let victim = nru_used_pages s2 ! pframe in
               (case nru_delete_page_by_number s2 (pte_pagenum victim) of
                  Inl e \<Rightarrow> Inl e
                | Inr s3 \<Rightarrow>
                    let (prot, s4) = nru_record_page g s3 pframe faulted_page
                    in Inr (\<lparr> newprot = prot,
                              evictable_page = Some (page_address g (pte_pagenum victim)),
                              clean = Some (if modified victim then 0 else 1) \<rparr>, s4)))"

text \<open>Serving a list of faults from a state, each with its clock reading and its answer of
  \<open>random()\<close>; the results are collected up to the first error.\<close>

fun nru_run ::
  "jumbomem_globals \<Rightarrow> nru_state \<Rightarrow> (64 word \<times> 64 word \<times> addr) list \<Rightarrow> error + (replacement list \<times> nru_state)" where
  "nru_run g s [] = Inr ([], s)"
| "nru_run g s ((now, r, p) # fs) =
     (case nru_find_replacement_page g s now r p of
        Inl e \<Rightarrow> Inl e
      | Inr (res, s') \<Rightarrow>
          (case nru_run g s' fs of
             Inl e \<Rightarrow> Inl e
           | Inr (rs, s'') \<Rightarrow> Inr (res # rs, s'')))"

text \<open>A full cache of two frames, sorted by class: page 0 was loaded read-only and has not
  been written (class 2), page 1 has been written (class 3).\<close>

definition example_nru_state :: nru_state where
  "example_nru_state =
     \<lparr> nru_used_pages = [\<lparr> pte_pagenum = 0, referenced = True, modified = False \<rparr>,
                         \<lparr> pte_pagenum = 1, referenced = True, modified = True \<rparr>],
       nru_page_table = (\<lambda>_. [])(506629 := [0], 142190 := [1]),
       pages_by_class = [0, 1],
       sorted_by_class = True,
       class_size = [0, 0, 1, 1],
       nru_num_used = 2,
       nru_total_pages = 2,
       nru_readwrite = False,
       nru_interval_ms = 5000,
       prev_rbit_clear_time = 0,
       nru_dead_bucket = None \<rparr>"

text \<open>The state \<open>jm_initialize_pagereplace\<close> builds for \<open>JM_LOCAL_PAGES\<close> set to one and
  to two pages (\<open>JM_NRU_RW\<close> and \<open>JM_NRU_INTERVAL\<close> not set, the clock at 0).\<close>

definition nru_initial_state :: "nat \<Rightarrow> nru_state" where
  "nru_initial_state n =
     \<lparr> nru_used_pages = replicate n \<lparr> pte_pagenum = 0, referenced = False, modified = False \<rparr>,
       nru_page_table = (\<lambda>_. []),
       pages_by_class = replicate n 0,
       sorted_by_class = False,
       class_size = [0, 0, 0, 0],
       nru_num_used = 0,
       nru_total_pages = n,
       nru_readwrite = True,
       nru_interval_ms = DEFAULT_NRU_INTERVAL,
       prev_rbit_clear_time = 0,
       nru_dead_bucket = None \<rparr>"

text \<open>
  Three frames after an earlier sort that found all of them in class 1 and an eviction that
  then replaced frame 2: the recorded sizes still say that class 1 has three pages.
\<close>

definition example_stale_nru_state :: nru_state where
  "example_stale_nru_state =
     \<lparr> nru_used_pages = [\<lparr> pte_pagenum = 0, referenced = False, modified = True \<rparr>,
                         \<lparr> pte_pagenum = 1, referenced = False, modified = True \<rparr>,
                         \<lparr> pte_pagenum = 5, referenced = True, modified = True \<rparr>],
       nru_page_table = (\<lambda>_. [])(506629 := [0], 142190 := [1], 684440 := [2]),
       pages_by_class = [0, 1, 2],
       sorted_by_class = False,
       class_size = [0, 3, 0, 0],
       nru_num_used = 3,
       nru_total_pages = 3,
       nru_readwrite = True,
       nru_interval_ms = 5000,
       prev_rbit_clear_time = 0,
       nru_dead_bucket = None \<rparr>"

text \<open>The shape of the state while the cache fills: the arrays have their allocated length
  and \<open>class_size\<close> is as \<open>jm_initialize_pagereplace\<close> left it.\<close>

definition nru_filling :: "nru_state \<Rightarrow> bool" where
  "nru_filling s \<longleftrightarrow> length (nru_used_pages s) = nru_total_pages s
                    \<and> length (pages_by_class s) = nru_total_pages s
                    \<and> class_size s = [0, 0, 0, 0]"

section \<open>Interception of signal installation (funcoverrides.c)\<close>

text \<open>
  A \<open>struct sigaction\<close>: the handler (a function pointer; \<open>sa_handler\<close> and
  \<open>sa_sigaction\<close> share storage), the set of masked signals and the flags.
\<close>

record struct_sigaction =
  sa_handler :: addr
  sa_mask :: "nat set"
  sa_flags :: "32 word"

definition SIGSEGV :: nat where "SIGSEGV = 11"

text \<open>
  libc's own \<open>signal\<close> and \<open>sigaction\<close> (found with \<open>dlsym(RTLD_NEXT, ...)\<close>) are the
  environment: functions on a kernel state \<open>'k\<close> that the wrappers only pass along.  A call
  of \<open>sigaction\<close> gives the return value, what it stores in \<open>*oldact\<close> and the new kernel
  state.  Every call the wrappers make is also written to a log.
\<close>

datatype libc_call =
    Called_signal nat addr
  | Called_sigaction nat "struct_sigaction option" bool

record 'k libc =
  original_signal :: "'k \<Rightarrow> nat \<Rightarrow> addr \<Rightarrow> addr \<times> 'k"
  original_sigaction :: "'k \<Rightarrow> nat \<Rightarrow> struct_sigaction option \<Rightarrow> bool \<Rightarrow> int \<times> struct_sigaction option \<times> 'k"

text \<open>
  The state the wrappers work on: the kernel, the log of libc calls, the two shadow copies
  \<open>jm_prev_segfaulter\<close> and \<open>jm_prev_prev_segfaulter\<close>, and the calling thread's
  \<open>internal_depth\<close> (\<open>JM_ENTER\<close> increments it, \<open>JM_RETURN\<close> decrements it).
\<close>

record 'k signal_state =
  kernel :: 'k
  libc_calls :: "libc_call list"
  jm_prev_segfaulter :: struct_sigaction
  jm_prev_prev_segfaulter :: struct_sigaction
  internal_depth :: nat

definition JM_ENTER :: "'k signal_state \<Rightarrow> 'k signal_state" where
  "JM_ENTER st = st\<lparr> internal_depth := internal_depth st + 1 \<rparr>"

definition JM_RETURN :: "'k signal_state \<Rightarrow> 'k signal_state" where
  "JM_RETURN st = st\<lparr> internal_depth := internal_depth st - 1 \<rparr>"

text \<open>\<open>JM_INTERNAL_INVOCATION() = (jm_globals.is_internal || jm_get_internal_depth() > 1)\<close>\<close>

definition JM_INTERNAL_INVOCATION :: "jumbomem_globals \<Rightarrow> 'k signal_state \<Rightarrow> bool" where
  "JM_INTERNAL_INVOCATION g st \<longleftrightarrow> is_internal g \<noteq> 0 \<or> internal_depth st > 1"

definition signal :: "'k libc \<Rightarrow> jumbomem_globals \<Rightarrow> 'k signal_state \<Rightarrow> nat \<Rightarrow> addr \<Rightarrow> addr \<times> 'k signal_state" where
  "signal lc g st0 signum handler =
     (let st = JM_ENTER st0 in
      if signum \<noteq> SIGSEGV \<or> JM_INTERNAL_INVOCATION g st
      then let (old, k) = original_signal lc (kernel st) signum handler
           in (old, JM_RETURN (st\<lparr> kernel := k,
                                  libc_calls := libc_calls st @ [Called_signal signum handler] \<rparr>))
      else let prev_prev = (jm_prev_prev_segfaulter st)\<lparr> sa_handler := sa_handler (jm_prev_segfaulter st) \<rparr>;
               prev = (jm_prev_segfaulter st)\<lparr> sa_handler := handler \<rparr>
           in (sa_handler prev_prev,
               JM_RETURN (st\<lparr> jm_prev_segfaulter := prev, jm_prev_prev_segfaulter := prev_prev \<rparr>)))"

text \<open>\<open>sigaction(signum, act, oldact)\<close>: \<open>act = None\<close> is a \<open>NULL\<close> \<open>act\<close>; \<open>want_old\<close>
  says that \<open>oldact\<close> is not \<open>NULL\<close>.  The result is the return value, what was stored in
  \<open>*oldact\<close> (\<open>None\<close>: nothing) and the new state.\<close>

definition pass_sigaction ::
  "'k libc \<Rightarrow> 'k signal_state \<Rightarrow> nat \<Rightarrow> struct_sigaction option \<Rightarrow> bool
     \<Rightarrow> int \<times> struct_sigaction option \<times> 'k signal_state" where
  "pass_sigaction lc st signum act want_old =
     (let (ret, old, k) = original_sigaction lc (kernel st) signum act want_old
      in (ret, old, JM_RETURN (st\<lparr> kernel := k,
                                   libc_calls := libc_calls st @ [Called_sigaction signum act want_old] \<rparr>)))"

definition sigaction ::
  "'k libc \<Rightarrow> jumbomem_globals \<Rightarrow> 'k signal_state \<Rightarrow> nat \<Rightarrow> struct_sigaction option \<Rightarrow> bool
     \<Rightarrow> int \<times> struct_sigaction option \<times> 'k signal_state" where
  "sigaction lc g st0 signum act want_old =
     (let st = JM_ENTER st0 in
      if JM_INTERNAL_INVOCATION g st then pass_sigaction lc st signum act want_old
      else if signum \<noteq> SIGSEGV
      then (case act of
              Some a \<Rightarrow> pass_sigaction lc st signum (Some (a\<lparr> sa_mask := sa_mask a - {SIGSEGV} \<rparr>)) want_old
            | None \<Rightarrow> pass_sigaction lc st signum act want_old)
      else let old = (if want_old then Some (jm_prev_segfaulter st) else None);
               st' = (case act of
                        Some a \<Rightarrow> st\<lparr> jm_prev_prev_segfaulter := jm_prev_segfaulter st,
                                       jm_prev_segfaulter := a \<rparr>
                      | None \<Rightarrow> st)
           in (0, old, JM_RETURN st'))"

text \<open>A kernel that keeps one disposition per signal, as libc's functions see it, and a state
  after initialisation: the library's handler (at \<open>0x7000\<close>) is installed for \<open>SIGSEGV\<close>,
  the shadow holds the default disposition that was there before.\<close>

definition example_libc :: "(nat \<Rightarrow> struct_sigaction) libc" where
  "example_libc =
     \<lparr> original_signal = (\<lambda>k signum h. (sa_handler (k signum),
                                           k(signum := \<lparr> sa_handler = h, sa_mask = {}, sa_flags = 0 \<rparr>))),
       original_sigaction = (\<lambda>k signum act want_old.
                               (0, (if want_old then Some (k signum) else None),
                                (case act of Some a \<Rightarrow> k(signum := a) | None \<Rightarrow> k))) \<rparr>"

definition example_signal_state :: "(nat \<Rightarrow> struct_sigaction) signal_state" where
  "example_signal_state =
     \<lparr> kernel = (\<lambda>_. \<lparr> sa_handler = 0, sa_mask = {}, sa_flags = 0 \<rparr>)
                 (11 := \<lparr> sa_handler = 0x7000, sa_mask = {}, sa_flags = 0x50000004 \<rparr>),
       libc_calls = [],
       jm_prev_segfaulter = \<lparr> sa_handler = 0, sa_mask = {}, sa_flags = 0 \<rparr>,
       jm_prev_prev_segfaulter = \<lparr> sa_handler = 0, sa_mask = {}, sa_flags = 0 \<rparr>,
       internal_depth = 0 \<rparr>"

section \<open>The fault handler (faulthandler.c)\<close>
























section \<open>Interception of mmap (allocate.c, funcoverrides.c)\<close>

definition MAP_FAILED :: addr where "MAP_FAILED = - 1"
definition MAP_FIXED :: "32 word" where "MAP_FIXED = 0x10"

text \<open>
  What \<open>jm_mmap\<close> asks of the system: the current end of the data segment (\<open>sbrk(0)\<close>),
  \<open>brk\<close> (0 on success) and libc's \<open>mmap\<close> as found by \<open>dlsym\<close> (\<open>None\<close>: not found),
  whose result is the mapped address or \<open>MAP_FAILED\<close>.  A \<open>NULL\<close> \<open>start\<close> is the
  address 0.
\<close>

record mmap_env =
  sbrk0 :: addr
  brk :: "addr \<Rightarrow> int"
  original_mmap :: "(addr \<Rightarrow> 64 word \<Rightarrow> 32 word \<Rightarrow> 32 word \<Rightarrow> int \<Rightarrow> 64 word \<Rightarrow> addr) option"

definition in_managed_region :: "jumbomem_globals \<Rightarrow> addr \<Rightarrow> bool" where
  "in_managed_region g address \<longleftrightarrow> memregion g \<le> address \<and> address < memregion g + extent g"

text \<open>\<open>depth\<close> is the calling thread's \<open>internal_depth\<close> before \<open>JM_ENTER\<close>.\<close>

definition jm_mmap ::
  "mmap_env \<Rightarrow> jumbomem_globals \<Rightarrow> nat \<Rightarrow> addr \<Rightarrow> 64 word \<Rightarrow> 32 word \<Rightarrow> 32 word \<Rightarrow> int \<Rightarrow> 64 word
     \<Rightarrow> error + addr" where
  "jm_mmap env g depth start len prot flags fd offset =
     (case original_mmap env of
        None \<Rightarrow> Inl (Abort ''Failed to find mmap()'')
      | Some libc_mmap \<Rightarrow>
          if start \<noteq> 0 \<or> (is_internal g \<noteq> 0 \<or> depth + 1 > 1)
          then Inr (libc_mmap start len prot flags fd offset)
          else if ospagesize g = 0 then Inl (Undefined ''division by zero'')
          else
            let dataend = ((sbrk0 env - 1) div ospagesize g + 1) * ospagesize g;
                below = (if dataend + len < memregion g \<and> brk env (dataend + len) = 0
                         then Some (libc_mmap dataend len prot (flags OR MAP_FIXED) fd offset)
                         else None)
            in case below of
                 Some address \<Rightarrow>
                   if \<not> (address = MAP_FAILED \<or> in_managed_region g address) then Inr address
                   else
                     let address = libc_mmap (memregion g + extent g) len prot flags fd offset in
                     if address = MAP_FAILED then Inl (Abort ''mmap() failed to allocate at or above the managed region'')
                     else if in_managed_region g address
                     then Inl (Abort ''Failed to prevent mmap() from allocating within the managed region'')
                     else Inr address
               | None \<Rightarrow>
                   let address = libc_mmap (memregion g + extent g) len prot flags fd offset in
                   if address = MAP_FAILED then Inl (Abort ''mmap() failed to allocate at or above the managed region'')
                   else if in_managed_region g address
                   then Inl (Abort ''Failed to prevent mmap() from allocating within the managed region'')
                   else Inr address)"

text \<open>The override \<open>mmap\<close> of funcoverrides.c only calls \<open>jm_mmap\<close>.\<close>

definition mmap ::
  "mmap_env \<Rightarrow> jumbomem_globals \<Rightarrow> nat \<Rightarrow> addr \<Rightarrow> 64 word \<Rightarrow> 32 word \<Rightarrow> 32 word \<Rightarrow> int \<Rightarrow> 64 word
     \<Rightarrow> error + addr" where
  "mmap env g depth start len prot flags fd offset = jm_mmap env g depth start len prot flags fd offset"

text \<open>
  An environment in which the data segment cannot grow (\<open>brk\<close> fails) and the kernel, given
  the hint \<open>memregion + extent\<close>, places a mapping in the free range that ends one page into
  the managed region (whose first page is not mapped at the moment).
\<close>

definition example_libc_mmap :: "addr \<Rightarrow> 64 word \<Rightarrow> 32 word \<Rightarrow> 32 word \<Rightarrow> int \<Rightarrow> 64 word \<Rightarrow> addr" where
  "example_libc_mmap start len prot flags fd offset = 0xFF000"

definition example_brk :: "addr \<Rightarrow> int" where
  "example_brk a = - 1"

definition example_mmap_env :: mmap_env where
  "example_mmap_env = \<lparr> sbrk0 = 0x50000, brk = example_brk, original_mmap = Some example_libc_mmap \<rparr>"

section \<open>The minimum page size (sysinfo.c)\<close>

text \<open>
  \<open>jm_get_maximum_map_count\<close> reads \<open>/proc/sys/vm/max_map_count\<close>: the file cannot be
  opened, or \<open>fscanf\<close> finds no number in it (\<open>max_map_count\<close> stays 0), or it holds a number.
\<close>

datatype map_count_file = Cannot_open | No_number | Holds "64 word"

definition jm_get_maximum_map_count :: "map_count_file \<Rightarrow> 64 word" where
  "jm_get_maximum_map_count f = (case f of Cannot_open \<Rightarrow> 0 | No_number \<Rightarrow> 0 | Holds n \<Rightarrow> n)"

text \<open>
  \<open>jm_get_minimum_jm_page_size\<close>.  \<open>min_page_size\<close> is the function's static variable (0
  before the first call that computes a size); \<open>available\<close> is what
  \<open>jm_get_available_memory_size()\<close> does when it is called: it aborts or returns the available
  physical memory.  The result is the value returned and the new \<open>min_page_size\<close>.
\<close>

definition jm_get_minimum_jm_page_size ::
  "jumbomem_globals \<Rightarrow> 64 word \<Rightarrow> map_count_file \<Rightarrow> error + 64 word \<Rightarrow> error + (64 word \<times> 64 word)" where
  "jm_get_minimum_jm_page_size g min_page_size f available =
     (if min_page_size \<noteq> 0 then Inr (min_page_size, min_page_size)
      else let max_map_count = jm_get_maximum_map_count f in
        if max_map_count < 1 then Inr (0, min_page_size)
        else case available of
               Inl e \<Rightarrow> Inl e
             | Inr physmem \<Rightarrow>
                 if ospagesize g = 0 then Inl (Undefined ''division by zero'')
                 else let m = ((physmem div max_map_count + ospagesize g - 1) div ospagesize g) * ospagesize g;
                          m' = (if m < ospagesize g then ospagesize g else m)
                      in Inr (m', m'))"

text \<open>The formula in the words of the specification:
  \<open>ceil(P / max_map_count / ospagesize) * ospagesize\<close>.\<close>

definition spec_minimum_page_size :: "nat \<Rightarrow> nat \<Rightarrow> nat \<Rightarrow> int" where
  "spec_minimum_page_size P max_map_count os_page = \<lceil>real P / real max_map_count / real os_page\<rceil> * int os_page"


section \<open>Chunked reads and writes (funcoverrides.c)\<close>

definition JM_MAX_CONSECUTIVE :: nat where "JM_MAX_CONSECUTIVE = 3"

text \<open>
  The local variables of \<open>read_or_write\<close> together with the two fields of \<open>*info\<close> that
  the loop rewrites, \<open>info->count\<close> and \<open>info->buffer\<close>.  The sizes are \<open>size_t\<close>.
\<close>

record rw_state =
  bytesdone :: "64 word"
  unsuccessful_bytes :: "64 word"
  successful_bytes :: "64 word"
  max_successful_bytes :: "64 word"
  consec_successes :: nat
  consec_failures :: nat
  info_count :: "64 word"
  info_buffer :: addr

text \<open>The test that sends a call straight to the original function: the page size is not
  known yet, or all or part of the buffer is not managed.\<close>

definition rw_pass_through :: "jumbomem_globals \<Rightarrow> addr \<Rightarrow> 64 word \<Rightarrow> bool" where
  "rw_pass_through g baseaddr totalcount \<longleftrightarrow>
     pagesize g = 0 \<or> baseaddr < memregion g \<or> memregion g + extent g \<le> baseaddr + totalcount"

text \<open>The variables when the loop is entered.\<close>

definition rw_init :: "jumbomem_globals \<Rightarrow> addr \<Rightarrow> 64 word \<Rightarrow> rw_state" where
  "rw_init g baseaddr totalcount =
     \<lparr> bytesdone = 0,
       unsuccessful_bytes = 2 * local_pages g * pagesize g - ospagesize g,
       successful_bytes = ospagesize g,
       max_successful_bytes = ospagesize g,
       consec_successes = 0,
       consec_failures = 0,
       info_count = totalcount,
       info_buffer = baseaddr \<rparr>"

text \<open>
  The head of the loop body, up to the assignment to \<open>info->buffer\<close>: the bounds are revised
  after \<open>JM_MAX_CONSECUTIVE\<close> successes or failures in a row, then the chunk is sized.
  \<open>None\<close> is the \<open>break\<close>.
\<close>

definition rw_revise :: "jumbomem_globals \<Rightarrow> rw_state \<Rightarrow> rw_state option" where
  "rw_revise g st =
     (if consec_successes st = JM_MAX_CONSECUTIVE
      then Some (st\<lparr> successful_bytes := info_count st, consec_successes := 0 \<rparr>)
      else if consec_failures st = JM_MAX_CONSECUTIVE
      then (let st1 = st\<lparr> unsuccessful_bytes := info_count st, consec_failures := 0 \<rparr> in
            if unsuccessful_bytes st1 \<le> ospagesize g then None
            else if unsuccessful_bytes st1 = successful_bytes st1
            then Some (st1\<lparr> successful_bytes := ospagesize g,
                            unsuccessful_bytes := 2 * max_successful_bytes st1 - ospagesize g \<rparr>)
            else Some st1)
      else Some st)"

definition rw_chunk :: "64 word \<Rightarrow> addr \<Rightarrow> rw_state \<Rightarrow> rw_state" where
  "rw_chunk totalcount baseaddr st =
     (let bytesremaining = totalcount - bytesdone st;
          c = (successful_bytes st + unsuccessful_bytes st) div 2
      in st\<lparr> info_count := (if c > bytesremaining then bytesremaining else c),
             info_buffer := baseaddr + bytesdone st \<rparr>)"

text \<open>The rest of the loop body; \<open>newbytes\<close> is what the original function returned.\<close>

definition rw_account :: "rw_state \<Rightarrow> int \<Rightarrow> rw_state" where
  "rw_account st newbytes =
     (if newbytes < 1
      then st\<lparr> consec_failures := consec_failures st + 1, consec_successes := 0 \<rparr>
      else st\<lparr> consec_successes := consec_successes st + 1,
              consec_failures := 0,
              max_successful_bytes := (if max_successful_bytes st < info_count st then info_count st
                                       else max_successful_bytes st),
              bytesdone := bytesdone st + of_int newbytes \<rparr>)"


text \<open>
  The loop \<open>while (bytesdone < totalcount)\<close>.  The original function's results are supplied
  as a list, one for each attempt, and the loop gives \<open>OutOfDraws\<close> if it needs more of them.
  The result is the number of bytes done and the chunks attempted, each with its address and
  size (the arguments of \<open>jm_touch_memory_region\<close>).
\<close>

fun rw_loop ::
  "jumbomem_globals \<Rightarrow> 64 word \<Rightarrow> addr \<Rightarrow> rw_state \<Rightarrow> int list \<Rightarrow> error + (64 word \<times> (addr \<times> 64 word) list)" where
  "rw_loop g totalcount baseaddr st [] =
     (if bytesdone st < totalcount
      then (case rw_revise g st of None \<Rightarrow> Inr (bytesdone st, []) | Some st1 \<Rightarrow> Inl OutOfDraws)
      else Inr (bytesdone st, []))"
| "rw_loop g totalcount baseaddr st (newbytes # rest) =
     (if bytesdone st < totalcount
      then (case rw_revise g st of
              None \<Rightarrow> Inr (bytesdone st, [])
            | Some st1 \<Rightarrow>
                let st2 = rw_chunk totalcount baseaddr st1 in
                case rw_loop g totalcount baseaddr (rw_account st2 newbytes) rest of
                  Inl e \<Rightarrow> Inl e
                | Inr (n, chunks) \<Rightarrow> Inr (n, (info_buffer st2, info_count st2) # chunks))
      else Inr (bytesdone st, []))"

text \<open>\<open>read_or_write\<close>: the value returned (an \<open>ssize_t\<close>) and the chunks attempted.  A
  call that is passed through returns what the original function returns for the whole
  buffer.\<close>

definition read_or_write ::
  "jumbomem_globals \<Rightarrow> addr \<Rightarrow> 64 word \<Rightarrow> int list \<Rightarrow> error + (int \<times> (addr \<times> 64 word) list)" where
  "read_or_write g buffer count results =
     (if rw_pass_through g buffer count
      then (case results of [] \<Rightarrow> Inl OutOfDraws | r # _ \<Rightarrow> Inr (r, []))
      else case rw_loop g count buffer (rw_init g buffer count) results of
             Inl e \<Rightarrow> Inl e
           | Inr (n, chunks) \<Rightarrow> Inr (sint n, chunks))"




section \<open>Properties of the FIFO policy\<close>










section \<open>The page budget under FIFO, Random and NRE\<close>

text \<open>The budget under FIFO: every state reached keeps at most \<open>N\<close> pages; a call below the
  budget names no victim and adds a page, a call at the budget names a victim and keeps \<open>N\<close>.\<close>

lemma fifo_budget_init:
  "fifo_initialize_pagereplace g = Inr s \<Longrightarrow> fifo_inv s \<and> fifo_num_used s = 0
     \<and> fifo_total_pages s = unat (local_pages g)"
  by (auto simp: fifo_initialize_pagereplace_def fifo_inv_def split: if_splits)

lemma fifo_budget_step:
  assumes "fifo_inv s" and "fifo_find_replacement_page g s p = (res, s')"
  shows "fifo_inv s' \<and> fifo_total_pages s' = fifo_total_pages s
         \<and> (fifo_num_used s < fifo_total_pages s \<longrightarrow>
              evictable_page res = None \<and> fifo_num_used s' = fifo_num_used s + 1)
         \<and> (fifo_num_used s = fifo_total_pages s \<longrightarrow>
              evictable_page res \<noteq> None \<and> fifo_num_used s' = fifo_total_pages s)"
  using assms
  by (auto simp: fifo_inv_def fifo_find_replacement_page_def split: if_splits)

text \<open>The budget under Random.  At the budget the call returns as soon as \<open>random()\<close> gives
  an answer that selects a page other than the one brought in last.\<close>

lemma random_budget_init:
  "random_initialize_pagereplace g = Inr s \<Longrightarrow> random_inv s \<and> rnd_num_used s = 0
     \<and> rnd_total_pages s = unat (local_pages g)"
  by (auto simp: random_initialize_pagereplace_def random_inv_def split: if_splits)

lemma scaled_random_less: "0 < n \<Longrightarrow> scaled_random r n < n"
  by (simp add: scaled_random_def)

lemma random_draw_returns:
  assumes "random_inv s" and "rnd_num_used s = rnd_total_pages s"
      and "\<exists>r \<in> set rs. random_accepts g s r"
  shows "\<exists>randnum victim rs'. random_draw g s rs = Inr (randnum, victim, rs')
           \<and> randnum < rnd_total_pages s"
  using assms(3)
proof (induction rs)
  case Nil
  then show ?case by simp
next
  case (Cons r rs)
  have pos: "0 < rnd_num_used s" and len: "length (rnd_used_pages s) = rnd_num_used s"
    using assms(1,2) by (auto simp: random_inv_def)
  have lt: "scaled_random r (rnd_num_used s) < rnd_num_used s"
    using pos by (rule scaled_random_less)
  show ?case
  proof (cases "random_accepts g s r")
    case True
    then show ?thesis
      using pos len lt assms(2) by (simp add: random_accepts_def Let_def)
  next
    case False
    then have "\<exists>r \<in> set rs. random_accepts g s r" using Cons.prems by auto
    from Cons.IH[OF this] show ?thesis
      using False pos len lt by (simp add: random_accepts_def Let_def)
  qed
qed

lemma random_draw_in_range:
  "random_draw g s rs = Inr (randnum, victim, rs') \<Longrightarrow> randnum < length (rnd_used_pages s)"
  by (induction rs) (auto simp: Let_def split: if_splits)

lemma random_budget_step:
  assumes "random_inv s" and "random_find_replacement_page g s rs p = Inr (res, s', rs')"
  shows "random_inv s' \<and> rnd_total_pages s' = rnd_total_pages s
         \<and> (rnd_num_used s < rnd_total_pages s \<longrightarrow>
              evictable_page res = None \<and> rnd_num_used s' = rnd_num_used s + 1)
         \<and> (rnd_num_used s = rnd_total_pages s \<longrightarrow>
              evictable_page res \<noteq> None \<and> rnd_num_used s' = rnd_total_pages s)"
  using assms
  by (auto simp: random_inv_def random_find_replacement_page_def split: if_splits sum.splits)

lemma random_budget_returns:
  assumes "random_inv s" and "rnd_num_used s = rnd_total_pages s"
      and "\<exists>r \<in> set rs. random_accepts g s r"
  shows "\<exists>res s' rs'. random_find_replacement_page g s rs p = Inr (res, s', rs')"
proof -
  obtain randnum victim rs' where "random_draw g s rs = Inr (randnum, victim, rs')"
    using random_draw_returns[OF assms] by blast
  then show ?thesis
    using assms(2) by (simp add: random_find_replacement_page_def)
qed

text \<open>The budget under NRE, for a call that returns.\<close>

lemma nre_budget_step:
  assumes "nre_num_used s \<le> nre_total_pages s"
      and "nre_find_replacement_page g s rs p = Inr (res, s', rs')"
  shows "nre_num_used s' \<le> nre_total_pages s' \<and> nre_total_pages s' = nre_total_pages s
         \<and> (nre_num_used s < nre_total_pages s \<longrightarrow>
              evictable_page res = None \<and> nre_num_used s' = nre_num_used s + 1)
         \<and> (nre_num_used s = nre_total_pages s \<longrightarrow>
              evictable_page res \<noteq> None \<and> nre_num_used s' = nre_total_pages s)"
  using assms
  by (auto simp: nre_find_replacement_page_def Let_def split: if_splits sum.splits)

section \<open>Properties of the page table\<close>

lemma find_bucket_None_unlink:
  "find_bucket used pn bs = None \<Longrightarrow> unlink_bucket used pn bs = None"
  by (induction bs) (auto split: if_splits)

lemma delete_absent_aborts:
  assumes "find_page_by_number pt pn = None"
  shows "\<exists>msg. delete_page_by_number pt pn = Inl (Abort msg)"
proof (cases "page_hash pt (hash_page_number pn)")
  case Nil
  then show ?thesis by (simp add: delete_page_by_number_def)
next
  case (Cons b bs)
  have nohead: "pagenum (pt_used_pages pt ! b) \<noteq> pn"
    and rest: "find_bucket (pt_used_pages pt) pn bs = None"
    using assms Cons by (auto simp: find_page_by_number_def split: if_splits)
  show ?thesis
    using Cons nohead find_bucket_None_unlink[OF rest]
    by (simp add: delete_page_by_number_def Let_def)
qed

lemma delete_sets_dead_bucket:
  assumes "delete_page_by_number pt pn = Inr pt'"
  shows "dead_bucket pt = None \<and> dead_bucket pt' \<noteq> None
         \<and> pt_num_used pt' = pt_num_used pt \<and> table_size pt' = table_size pt"
  using assms
  by (auto simp: delete_page_by_number_def Let_def split: list.splits if_splits option.splits)

lemma delete_with_dead_bucket_aborts:
  assumes "dead_bucket pt \<noteq> None"
  shows "\<exists>msg. delete_page_by_number pt pn = Inl (Abort msg)"
  using assms by (auto simp: delete_page_by_number_def Let_def split: list.splits)

lemma jm_page_table_delete_Inr:
  assumes "jm_page_table_delete g pt a = Inr pt'"
  shows "dead_bucket pt = None \<and> dead_bucket pt' \<noteq> None
         \<and> pt_num_used pt' = pt_num_used pt - 1 \<and> table_size pt' = table_size pt"
proof -
  obtain pt1 where d: "delete_page_by_number pt (ucast (GET_PAGE_NUMBER g a)) = Inr pt1"
    and pt': "pt' = pt1\<lparr> pt_num_used := pt_num_used pt1 - 1 \<rparr>"
    using assms by (auto simp: jm_page_table_delete_def split: sum.splits)
  show ?thesis using delete_sets_dead_bucket[OF d] by (simp add: pt')
qed

lemma jm_page_table_insert_Inr:
  assumes "jm_page_table_insert g pt a e = Inr pt'"
  shows "pt_num_used pt \<noteq> table_size pt \<and> dead_bucket pt' = None
         \<and> pt_num_used pt' = pt_num_used pt + 1 \<and> table_size pt' = table_size pt"
  using assms
  by (auto simp: jm_page_table_insert_def insert_pte_def Let_def split: if_splits)

text \<open>The two states the table moves between once it has filled.\<close>

lemma pt_run_alternates_aux:
  "pt_run g pt ops = Inr pt' \<Longrightarrow>
   (pt_num_used pt = table_size pt \<and> dead_bucket pt = None \<longrightarrow> alternating ops) \<and>
   (pt_num_used pt = table_size pt - 1 \<and> dead_bucket pt \<noteq> None \<longrightarrow>
      ops = [] \<or> (\<exists>b xs. ops = Insert b # xs \<and> alternating xs))"
proof (induction ops arbitrary: pt)
  case Nil
  then show ?case by simp
next
  case (Cons x xs)
  from Cons.prems obtain pt1 where
    step: "pt_apply g pt x = Inr pt1" and rest: "pt_run g pt1 xs = Inr pt'"
    by (auto split: sum.splits)
  note IH = Cons.IH[OF rest]
  show ?case
  proof (cases x)
    case (Insert b)
    then have i: "jm_page_table_insert g pt b None = Inr pt1" using step by simp
    note f = jm_page_table_insert_Inr[OF i]
    show ?thesis
      using f IH Insert by auto
  next
    case (Delete a)
    then have d: "jm_page_table_delete g pt a = Inr pt1" using step by simp
    note f = jm_page_table_delete_Inr[OF d]
    have "pt_num_used pt = table_size pt \<Longrightarrow> alternating (Delete a # xs)"
    proof -
      assume "pt_num_used pt = table_size pt"
      then have "xs = [] \<or> (\<exists>b ys. xs = Insert b # ys \<and> alternating ys)"
        using f IH by simp
      then show ?thesis by auto
    qed
    then show ?thesis using f Delete by auto
  qed
qed

lemma pt_run_alternates:
  "pt_num_used pt = table_size pt \<Longrightarrow> dead_bucket pt = None \<Longrightarrow> pt_run g pt ops = Inr pt'
   \<Longrightarrow> alternating ops"
  using pt_run_alternates_aux by blast

lemma example_hashes:
  "hash_page_number 0 = 506629" "hash_page_number 1 = 142190" "hash_page_number 2 = 777754"
  "hash_page_number 5 = 684440"
  by (simp_all add: hash_page_number_def BIGPRIME1_def BIGPRIME2_def HASH_TABLE_SIZE_def)

lemma example_page_numbers:
  "GET_PAGE_NUMBER example_globals 0x100000 = 0"
  "GET_PAGE_NUMBER example_globals 0x101000 = 1"
  "GET_PAGE_NUMBER example_globals 0x102000 = 2"
  "GET_PAGE_NUMBER example_globals 0x105000 = 5"
  by (simp_all add: GET_PAGE_NUMBER_def example_globals_def)

text \<open>
  Claim C3.  The page table enforces its usage discipline fatally:
  \<open>jm_page_table_insert\<close> aborts when the table already holds \<open>table_size\<close> entries;
  \<open>jm_page_table_delete\<close> aborts when the requested page is not present (when
  \<open>jm_page_table_find\<close> gives \<open>NULL\<close> for it); a deletion that succeeds found the
  dead-bucket slot empty and fills it, so that a second deletion with no insertion in between
  aborts; and therefore every sequence of insertions and deletions that a full table survives
  alternates strictly, a deletion first.
\<close>

theorem page_table_discipline:
  "(pt_num_used pt = table_size pt \<longrightarrow>
      jm_page_table_insert g pt a e = Inl (Abort ''A page table overflowed''))
   \<and> (jm_page_table_find g pt a' = None \<longrightarrow>
      (\<exists>msg. jm_page_table_delete g pt a' = Inl (Abort msg)))
   \<and> (jm_page_table_delete g pt b = Inr pt1 \<longrightarrow>
      dead_bucket pt = None \<and> dead_bucket pt1 \<noteq> None
      \<and> (\<exists>msg. jm_page_table_delete g pt1 b' = Inl (Abort msg)))
   \<and> (pt_num_used pt = table_size pt \<and> dead_bucket pt = None \<and> pt_run g pt ops = Inr pt2 \<longrightarrow>
      alternating ops)"
proof (intro conjI impI)
  assume "pt_num_used pt = table_size pt"
  then show "jm_page_table_insert g pt a e = Inl (Abort ''A page table overflowed'')"
    by (simp add: jm_page_table_insert_def)
next
  assume "jm_page_table_find g pt a' = None"
  then obtain msg where "delete_page_by_number pt (ucast (GET_PAGE_NUMBER g a')) = Inl (Abort msg)"
    using delete_absent_aborts by (auto simp: jm_page_table_find_def)
  then show "\<exists>msg. jm_page_table_delete g pt a' = Inl (Abort msg)"
    by (simp add: jm_page_table_delete_def)
next
  assume d: "jm_page_table_delete g pt b = Inr pt1"
  show "dead_bucket pt = None" using jm_page_table_delete_Inr[OF d] by simp
  show "dead_bucket pt1 \<noteq> None" using jm_page_table_delete_Inr[OF d] by simp
  then obtain msg where "delete_page_by_number pt1 (ucast (GET_PAGE_NUMBER g b')) = Inl (Abort msg)"
    using delete_with_dead_bucket_aborts by blast
  then show "\<exists>msg. jm_page_table_delete g pt1 b' = Inl (Abort msg)"
    by (simp add: jm_page_table_delete_def)
next
  assume "pt_num_used pt = table_size pt \<and> dead_bucket pt = None \<and> pt_run g pt ops = Inr pt2"
  then show "alternating ops" using pt_run_alternates by blast
qed

theorem page_table_discipline_witness:
  "pt_num_used example_page_table = table_size example_page_table
   \<and> jm_page_table_insert example_globals example_page_table 0x102000 None
       = Inl (Abort ''A page table overflowed'')
   \<and> jm_page_table_find example_globals example_page_table 0x105000 = None
   \<and> (\<exists>msg. jm_page_table_delete example_globals example_page_table 0x105000 = Inl (Abort msg))
   \<and> (\<exists>pt1. jm_page_table_delete example_globals example_page_table 0x100000 = Inr pt1
         \<and> (\<exists>msg. jm_page_table_delete example_globals pt1 0x101000 = Inl (Abort msg)))
   \<and> (\<exists>pt2. pt_run example_globals example_page_table
                [Delete 0x100000, Insert 0x102000, Delete 0x101000] = Inr pt2)
   \<and> alternating [Delete 0x100000, Insert 0x102000, Delete 0x101000]"
proof -
  have full: "pt_num_used example_page_table = table_size example_page_table"
    and nodead: "dead_bucket example_page_table = None"
    by (simp_all add: example_page_table_def)
  have absent: "jm_page_table_find example_globals example_page_table 0x105000 = None"
    by (simp add: jm_page_table_find_def find_page_by_number_def example_page_numbers example_hashes
                  example_page_table_def)
  obtain pt1 where del: "jm_page_table_delete example_globals example_page_table 0x100000 = Inr pt1"
    by (simp add: jm_page_table_delete_def delete_page_by_number_def example_page_numbers
                  example_hashes example_page_table_def)
  obtain pt2 where run: "pt_run example_globals example_page_table
                [Delete 0x100000, Insert 0x102000, Delete 0x101000] = Inr pt2"
    by (simp add: jm_page_table_delete_def delete_page_by_number_def jm_page_table_insert_def
                  insert_pte_def example_page_numbers example_hashes example_page_table_def)
  note t = page_table_discipline[of example_page_table example_globals "0x102000" None "0x105000"
              "0x100000" pt1 "0x101000" "[Delete 0x100000, Insert 0x102000, Delete 0x101000]" pt2]
  show ?thesis
    using t full nodead absent del run by blast
qed

section \<open>The first eviction under NRU\<close>

lemma maybe_clear_reference_bits_frame:
  "class_size (maybe_clear_reference_bits s now) = class_size s
   \<and> nru_num_used (maybe_clear_reference_bits s now) = nru_num_used s
   \<and> nru_total_pages (maybe_clear_reference_bits s now) = nru_total_pages s
   \<and> pages_by_class (maybe_clear_reference_bits s now) = pages_by_class s
   \<and> length (nru_used_pages (maybe_clear_reference_bits s now)) = length (nru_used_pages s)"
  by (auto simp: maybe_clear_reference_bits_def min_def)

text \<open>While the cache fills, nothing is evicted and \<open>class_size\<close> is not touched.\<close>

lemma nru_fill_step:
  assumes "nru_filling s" and "nru_num_used s < nru_total_pages s"
  shows "\<exists>res s'. nru_find_replacement_page g s now r p = Inr (res, s')
           \<and> evictable_page res = None \<and> nru_filling s'
           \<and> nru_num_used s' = nru_num_used s + 1 \<and> nru_total_pages s' = nru_total_pages s"
  using assms maybe_clear_reference_bits_frame[of s now]
  by (simp add: nru_find_replacement_page_def nru_filling_def Let_def nru_record_page_def
                nru_insert_pte_def split: prod.splits)

lemma nru_full_step:
  assumes "class_size s = [0, 0, 0, 0]" and "\<not> nru_num_used s < nru_total_pages s"
  shows "nru_find_replacement_page g s now r p = Inl (Undefined ''class_size read out of bounds'')"
  using assms maybe_clear_reference_bits_frame[of s now]
  by (simp add: nru_find_replacement_page_def nru_choose_victim_def nru_smallest_class_def Let_def)

lemma nru_fill_run:
  "nru_filling s \<Longrightarrow> nru_num_used s + length fs \<le> nru_total_pages s \<Longrightarrow>
   \<exists>rs s'. nru_run g s fs = Inr (rs, s') \<and> (\<forall>res \<in> set rs. evictable_page res = None)
            \<and> length rs = length fs \<and> nru_filling s'
            \<and> nru_num_used s' = nru_num_used s + length fs \<and> nru_total_pages s' = nru_total_pages s"
proof (induction fs arbitrary: s)
  case Nil
  then show ?case by simp
next
  case (Cons f fs)
  obtain now r p where f: "f = (now, r, p)" by (cases f) auto
  have lt: "nru_num_used s < nru_total_pages s" using Cons.prems by simp
  obtain res s1 where step: "nru_find_replacement_page g s now r p = Inr (res, s1)"
    and none: "evictable_page res = None" and fill1: "nru_filling s1"
    and n1: "nru_num_used s1 = nru_num_used s + 1" and t1: "nru_total_pages s1 = nru_total_pages s"
    using nru_fill_step[OF Cons.prems(1) lt] by blast
  have "nru_num_used s1 + length fs \<le> nru_total_pages s1" using Cons.prems n1 t1 by simp
  from Cons.IH[OF fill1 this] obtain rs s' where
    run: "nru_run g s1 fs = Inr (rs, s')" and rest: "\<forall>res \<in> set rs. evictable_page res = None"
    "length rs = length fs" "nru_filling s'" "nru_num_used s' = nru_num_used s1 + length fs"
    "nru_total_pages s' = nru_total_pages s1"
    by blast
  have "nru_run g s (f # fs) = Inr (res # rs, s')"
    by (simp add: f step run)
  then show ?case using none rest n1 t1 by auto
qed

lemma nru_run_snoc:
  "nru_run g s fs = Inr (rs, s') \<Longrightarrow> nru_find_replacement_page g s' now r p = Inl e \<Longrightarrow>
   nru_run g s (fs @ [(now, r, p)]) = Inl e"
  by (induction fs arbitrary: s rs) (auto split: sum.splits prod.splits)

text \<open>Every NRU cache runs into the out-of-bounds read with its first eviction.\<close>

lemma nru_first_eviction_undefined:
  assumes init: "nru_initialize_pagereplace g have_local_pages rw interval now0 = Inr (s0, g')"
      and fill: "length fs = nru_total_pages s0"
  shows "nru_run g' s0 (fs @ [(now, r, p)]) = Inl (Undefined ''class_size read out of bounds'')"
proof -
  have f0: "nru_filling s0" and n0: "nru_num_used s0 = 0"
    using init by (auto simp: nru_initialize_pagereplace_def nru_filling_def Let_def split: if_splits)
  obtain rs s where run: "nru_run g' s0 fs = Inr (rs, s)" and f: "nru_filling s"
    and n: "nru_num_used s = nru_num_used s0 + length fs" and t: "nru_total_pages s = nru_total_pages s0"
    using nru_fill_run[OF f0, of fs g'] fill n0 by auto
  have "nru_find_replacement_page g' s now r p = Inl (Undefined ''class_size read out of bounds'')"
    using f n t fill n0 by (intro nru_full_step) (simp_all add: nru_filling_def)
  then show ?thesis using nru_run_snoc[OF run] by blast
qed

lemma nru_example_init:
  "nru_initialize_pagereplace (example_globals\<lparr> local_pages := 1 \<rparr>) True None None 0
     = Inr (nru_initial_state 1, example_globals\<lparr> local_pages := 1 \<rparr>)"
  "nru_initialize_pagereplace example_globals True None None 0 = Inr (nru_initial_state 2, example_globals)"
  by (simp_all add: nru_initialize_pagereplace_def nru_initial_state_def example_globals_def)

text \<open>Past the first eviction a stale \<open>class_size\<close> misleads the choice as well: the offset
  drawn within the recorded size of class 1 selects, after the re-sort, a page of class 3 although
  two pages of class 1 are resident.\<close>

lemma nru_stale_offset_example:
  "\<exists>s'. nru_choose_victim example_stale_nru_state 1 = Inr (2, s')
        \<and> class_size s' = [0, 2, 0, 1]
        \<and> NRU_CLASS (nru_used_pages s' ! 2) = 3
        \<and> NRU_CLASS (nru_used_pages s' ! 0) = 1"
proof -
  have r: "scaled_random 1 3 = 2"
    by (simp add: scaled_random_def BIGPRIME1_def BIGPRIME2_def)
  have u: "[0..<3] = [0, 1, 2]"
    by (simp add: upt_rec)
  show ?thesis
    by (simp add: nru_choose_victim_def example_stale_nru_state_def nru_smallest_class_def r u
                  NRU_CLASS_def sort_pages_by_class_def Let_def)
qed

text \<open>
  Claim C7.  Under NRU every call on a full cache is to return a victim of the
  smallest-numbered non-empty class.  The code looks for that class in \<open>class_size\<close>,
  which only \<open>sort_pages_by_class\<close> ever fills in and which is therefore still all zeros
  when the cache has just filled: the search ends with \<open>class = 4\<close> and the random offset
  is reduced modulo \<open>class_size[4]\<close>, one past the end of the array.  Run on a cache of two
  frames, the third fault has no defined victim.
\<close>

theorem nru_first_victim_is_undefined:
  "nru_initialize_pagereplace example_globals True None None 0 = Inr (nru_initial_state 2, example_globals)
   \<and> nru_smallest_class (class_size (nru_initial_state 2)) = 4
   \<and> nru_run example_globals (nru_initial_state 2)
        [(0, 0, 0x100000), (0, 0, 0x101000), (0, 0, 0x102000)]
     = Inl (Undefined ''class_size read out of bounds'')"
proof -
  have t: "length [(0 :: 64 word, 0 :: 64 word, 0x100000 :: addr), (0, 0, 0x101000)]
             = nru_total_pages (nru_initial_state 2)"
    by (simp add: nru_initial_state_def)
  have c: "nru_smallest_class (class_size (nru_initial_state 2)) = 4"
    by (simp add: nru_initial_state_def nru_smallest_class_def)
  show ?thesis
    using nru_first_eviction_undefined[OF nru_example_init(2) t, of 0 0 "0x102000"] nru_example_init(2) c
    by simp
qed


text \<open>
  Claim C1.  Every call that begins with \<open>N\<close> resident pages is to return a victim and to
  leave \<open>N\<close> pages resident, under each of the four policies.  Under NRU the first such
  call reads \<open>class_size[4]\<close> (see above); with one local page the second fault already
  is that call.
\<close>

theorem nru_one_page_cache_has_no_victim:
  "nru_initialize_pagereplace (example_globals\<lparr> local_pages := 1 \<rparr>) True None None 0
     = Inr (nru_initial_state 1, example_globals\<lparr> local_pages := 1 \<rparr>)
   \<and> nru_run (example_globals\<lparr> local_pages := 1 \<rparr>) (nru_initial_state 1)
        [(0, 0, 0x100000), (0, 0, 0x101000)]
     = Inl (Undefined ''class_size read out of bounds'')"
proof -
  have t: "length [(0 :: 64 word, 0 :: 64 word, 0x100000 :: addr)] = nru_total_pages (nru_initial_state 1)"
    by (simp add: nru_initial_state_def)
  show ?thesis
    using nru_first_eviction_undefined[OF nru_example_init(1) t, of 0 0 "0x101000"] nru_example_init(1)
    by simp
qed

section \<open>What the policies report about the victim\<close>

lemma fifo_result:
  "fifo_find_replacement_page g s p = (res, s') \<Longrightarrow>
   newprot res = PROT_READ OR PROT_WRITE \<and> clean res = Some 0"
  by (auto simp: fifo_find_replacement_page_def split: if_splits)

lemma random_result:
  "random_find_replacement_page g s draws p = Inr (res, s', draws') \<Longrightarrow>
   newprot res = PROT_READ OR PROT_WRITE \<and> clean res = Some 0"
  by (auto simp: random_find_replacement_page_def split: if_splits sum.splits)

lemma nre_result:
  "nre_find_replacement_page g s draws p = Inr (res, s', draws') \<Longrightarrow>
   newprot res = PROT_READ OR PROT_WRITE \<and> clean res = Some 0"
  by (auto simp: nre_find_replacement_page_def Let_def split: if_splits sum.splits)

lemma nru_result:
  assumes "nru_find_replacement_page g s now r p = Inr (res, s')"
      and "evictable_page res \<noteq> None"
  shows "\<exists>pframe s2. nru_choose_victim (maybe_clear_reference_bits s now) r = Inr (pframe, s2)
           \<and> evictable_page res = Some (page_address g (pte_pagenum (nru_used_pages s2 ! pframe)))
           \<and> clean res = Some (if modified (nru_used_pages s2 ! pframe) then 0 else 1)"
proof -
  let ?s1 = "maybe_clear_reference_bits s now"
  have full: "\<not> nru_num_used ?s1 < nru_total_pages ?s1"
    using assms by (auto simp: nru_find_replacement_page_def Let_def split: if_splits prod.splits)
  then obtain pframe s2 where cv: "nru_choose_victim ?s1 r = Inr (pframe, s2)"
    using assms(1) by (auto simp: nru_find_replacement_page_def Let_def split: sum.splits)
  have "evictable_page res = Some (page_address g (pte_pagenum (nru_used_pages s2 ! pframe)))
        \<and> clean res = Some (if modified (nru_used_pages s2 ! pframe) then 0 else 1)"
    using assms(1) full cv
    by (simp add: nru_find_replacement_page_def Let_def split: sum.splits prod.splits) auto
  then show ?thesis using cv by blast
qed

lemma example_scaled_random:
  "scaled_random 0 2 = 1" "scaled_random 1 2 = 0" "scaled_random 0 1 = 0" "scaled_random 1 1 = 0"
  by (simp_all add: scaled_random_def BIGPRIME1_def BIGPRIME2_def)

lemma scaled_random_1: "scaled_random r (Suc 0) = 0"
  by (simp add: scaled_random_def)

lemma example_page_addresses:
  "page_address example_globals 0 = 0x100000" "page_address example_globals 1 = 0x101000"
  by (simp_all add: page_address_def example_globals_def)

text \<open>
  Claim C10.  Under the FIFO, Random and NRE policies every call to
  \<open>jm_find_replacement_page\<close> that returns sets the new page's protection to read+write and
  reports the victim as dirty (\<open>clean = 0\<close>).  Under NRU a call that names a victim reports
  \<open>clean = !modified\<close> of the frame it chose, so an eviction is clean exactly when the
  victim's modified bit is 0: only NRU can evict without communication.
\<close>

theorem only_nru_evicts_clean:
  "(fifo_find_replacement_page g fs p1 = (res1, fs') \<longrightarrow>
      newprot res1 = PROT_READ OR PROT_WRITE \<and> clean res1 = Some 0)
   \<and> (random_find_replacement_page g rs draws2 p2 = Inr (res2, rs', draws2') \<longrightarrow>
      newprot res2 = PROT_READ OR PROT_WRITE \<and> clean res2 = Some 0)
   \<and> (nre_find_replacement_page g ns draws3 p3 = Inr (res3, ns', draws3') \<longrightarrow>
      newprot res3 = PROT_READ OR PROT_WRITE \<and> clean res3 = Some 0)
   \<and> (nru_find_replacement_page g us now r p4 = Inr (res4, us') \<and> evictable_page res4 \<noteq> None \<longrightarrow>
      (\<exists>pframe s2. nru_choose_victim (maybe_clear_reference_bits us now) r = Inr (pframe, s2)
           \<and> evictable_page res4 = Some (page_address g (pte_pagenum (nru_used_pages s2 ! pframe)))
           \<and> clean res4 = Some (if modified (nru_used_pages s2 ! pframe) then 0 else 1)))"
proof -
  have a: "fifo_find_replacement_page g fs p1 = (res1, fs') \<longrightarrow>
      newprot res1 = PROT_READ OR PROT_WRITE \<and> clean res1 = Some 0"
    using fifo_result by blast
  have b: "random_find_replacement_page g rs draws2 p2 = Inr (res2, rs', draws2') \<longrightarrow>
      newprot res2 = PROT_READ OR PROT_WRITE \<and> clean res2 = Some 0"
    using random_result by blast
  have c: "nre_find_replacement_page g ns draws3 p3 = Inr (res3, ns', draws3') \<longrightarrow>
      newprot res3 = PROT_READ OR PROT_WRITE \<and> clean res3 = Some 0"
    using nre_result by blast
  have d: "nru_find_replacement_page g us now r p4 = Inr (res4, us') \<and> evictable_page res4 \<noteq> None \<longrightarrow>
      (\<exists>pframe s2. nru_choose_victim (maybe_clear_reference_bits us now) r = Inr (pframe, s2)
           \<and> evictable_page res4 = Some (page_address g (pte_pagenum (nru_used_pages s2 ! pframe)))
           \<and> clean res4 = Some (if modified (nru_used_pages s2 ! pframe) then 0 else 1))"
    using nru_result by blast
  show ?thesis
    by (rule conjI[OF a conjI[OF b conjI[OF c d]]])
qed

theorem only_nru_evicts_clean_witness:
  "(\<exists>res1 fs'. fifo_find_replacement_page example_globals
        \<lparr> fifo_used_pages = [0, 1], fifo_num_used = 2, fifo_total_pages = 2, fifo_next_evict = 0 \<rparr>
        0x102000 = (res1, fs')
      \<and> evictable_page res1 = Some 0x100000
      \<and> newprot res1 = PROT_READ OR PROT_WRITE \<and> clean res1 = Some 0)
   \<and> (\<exists>res2 rs' draws'. random_find_replacement_page example_globals example_random_state [0] 0x102000
        = Inr (res2, rs', draws')
      \<and> evictable_page res2 = Some 0x101000
      \<and> newprot res2 = PROT_READ OR PROT_WRITE \<and> clean res2 = Some 0)
   \<and> (\<exists>res3 ns' draws'. nre_find_replacement_page example_globals example_nre_state [0] 0x102000
        = Inr (res3, ns', draws')
      \<and> evictable_page res3 = Some 0x101000
      \<and> newprot res3 = PROT_READ OR PROT_WRITE \<and> clean res3 = Some 0)
   \<and> (\<exists>res4 us'. nru_find_replacement_page example_globals example_nru_state 0 0 0x102000 = Inr (res4, us')
      \<and> evictable_page res4 = Some 0x100000
      \<and> nru_choose_victim (maybe_clear_reference_bits example_nru_state 0) 0 = Inr (0, example_nru_state)
      \<and> \<not> modified (nru_used_pages example_nru_state ! 0)
      \<and> clean res4 = Some 1)"
proof -
  obtain res1 fs' where f: "fifo_find_replacement_page example_globals
        \<lparr> fifo_used_pages = [0, 1], fifo_num_used = 2, fifo_total_pages = 2, fifo_next_evict = 0 \<rparr>
        0x102000 = (res1, fs')" and f2: "evictable_page res1 = Some 0x100000"
    by (simp add: fifo_find_replacement_page_def example_page_addresses)
  obtain res2 rs' draws2' where rn: "random_find_replacement_page example_globals example_random_state [0] 0x102000
        = Inr (res2, rs', draws2')" and rn2: "evictable_page res2 = Some 0x101000"
    by (simp add: random_find_replacement_page_def example_random_state_def example_scaled_random
                  example_page_addresses)
  have off: "jm_page_table_offset example_page_table 1 = Inr 1"
    by (simp add: jm_page_table_offset_def example_page_table_def word_le_nat_alt)
  have m1: "unat (- 1 :: 32 word) = 4294967295"
    by (simp add: unsigned_minus_1_eq_mask mask_eq_exp_minus_1)
  have sel: "nre_select example_globals example_nre_state 0 [0] = Inr (1, 0x101000, [])"
    using off by (simp add: example_nre_state_def example_scaled_random example_page_addresses m1)
  have pn1: "GET_PAGE_NUMBER example_globals 0x101000 = 1" "GET_PAGE_NUMBER example_globals 0x102000 = 2"
    by (simp_all add: GET_PAGE_NUMBER_def example_globals_def)
  have h: "hash_page_number 1 = 142190" "hash_page_number 2 = 777754" "hash_page_number 0 = 506629"
    by (simp_all add: hash_page_number_def BIGPRIME1_def BIGPRIME2_def HASH_TABLE_SIZE_def)
  obtain res3 ns' draws3' where ne: "nre_find_replacement_page example_globals example_nre_state [0] 0x102000
        = Inr (res3, ns', draws3')" and ne2: "evictable_page res3 = Some 0x101000"
    using sel
    by (simp add: nre_find_replacement_page_def example_nre_state_def jm_page_table_delete_def
          delete_page_by_number_def jm_page_table_insert_def insert_pte_def pn1 h example_page_table_def)
  have mc: "maybe_clear_reference_bits example_nru_state 0 = example_nru_state"
    by (simp add: maybe_clear_reference_bits_def example_nru_state_def)
  have cv: "nru_choose_victim example_nru_state 0 = Inr (0, example_nru_state)"
    by (simp add: nru_choose_victim_def example_nru_state_def nru_smallest_class_def
                  scaled_random_1 NRU_CLASS_def Let_def)
  have full: "\<not> nru_num_used example_nru_state < nru_total_pages example_nru_state"
    by (simp add: example_nru_state_def)
  have victim: "nru_used_pages example_nru_state ! 0 = \<lparr> pte_pagenum = 0, referenced = True, modified = False \<rparr>"
    by (simp add: example_nru_state_def)
  have "\<exists>s3. nru_delete_page_by_number example_nru_state 0 = Inr s3"
    by (simp add: nru_delete_page_by_number_def example_nru_state_def h Let_def)
  then obtain s3 where del: "nru_delete_page_by_number example_nru_state 0 = Inr s3" by blast
  obtain prot s4 where rec: "nru_record_page example_globals s3 0 0x102000 = (prot, s4)"
    by fastforce
  define res4 where "res4 = \<lparr> newprot = prot, evictable_page = Some (0x100000 :: addr), clean = Some (1 :: int) \<rparr>"
  define us' where "us' = s4"
  have nu: "nru_find_replacement_page example_globals example_nru_state 0 0 0x102000 = Inr (res4, us')"
    by (simp add: nru_find_replacement_page_def mc cv Let_def victim del rec example_page_addresses full
                  res4_def us'_def)
  have nu2: "evictable_page res4 = Some 0x100000"
    by (simp add: res4_def)
  note t = only_nru_evicts_clean[of example_globals
      "\<lparr> fifo_used_pages = [0, 1], fifo_num_used = 2, fifo_total_pages = 2, fifo_next_evict = 0 \<rparr>"
      "0x102000" res1 fs' example_random_state "[0]" "0x102000" res2 rs' draws2'
      example_nre_state "[0]" "0x102000" res3 ns' draws3'
      example_nru_state 0 0 "0x102000" res4 us']
  have nm: "\<not> modified (nru_used_pages example_nru_state ! 0)"
    by (simp add: example_nru_state_def)
  have c4: "clean res4 = Some 1"
    using t nu nu2 cv mc nm by auto
  have c1: "newprot res1 = PROT_READ OR PROT_WRITE \<and> clean res1 = Some 0"
    using t[THEN conjunct1] f by simp
  have c2: "newprot res2 = PROT_READ OR PROT_WRITE \<and> clean res2 = Some 0"
    using t[THEN conjunct2, THEN conjunct1] rn by simp
  have c3: "newprot res3 = PROT_READ OR PROT_WRITE \<and> clean res3 = Some 0"
    using t[THEN conjunct2, THEN conjunct2, THEN conjunct1] ne by simp
  show ?thesis
  proof (intro conjI)
    show "\<exists>res1 fs'. fifo_find_replacement_page example_globals
        \<lparr> fifo_used_pages = [0, 1], fifo_num_used = 2, fifo_total_pages = 2, fifo_next_evict = 0 \<rparr>
        0x102000 = (res1, fs')
      \<and> evictable_page res1 = Some 0x100000
      \<and> newprot res1 = PROT_READ OR PROT_WRITE \<and> clean res1 = Some 0"
      using f f2 c1 by blast
    show "\<exists>res2 rs' draws'. random_find_replacement_page example_globals example_random_state [0] 0x102000
        = Inr (res2, rs', draws')
      \<and> evictable_page res2 = Some 0x101000
      \<and> newprot res2 = PROT_READ OR PROT_WRITE \<and> clean res2 = Some 0"
      using rn rn2 c2 by blast
    show "\<exists>res3 ns' draws'. nre_find_replacement_page example_globals example_nre_state [0] 0x102000
        = Inr (res3, ns', draws')
      \<and> evictable_page res3 = Some 0x101000
      \<and> newprot res3 = PROT_READ OR PROT_WRITE \<and> clean res3 = Some 0"
      using ne ne2 c3 by blast
    show "\<exists>res4 us'. nru_find_replacement_page example_globals example_nru_state 0 0 0x102000 = Inr (res4, us')
      \<and> evictable_page res4 = Some 0x100000
      \<and> nru_choose_victim (maybe_clear_reference_bits example_nru_state 0) 0 = Inr (0, example_nru_state)
      \<and> \<not> modified (nru_used_pages example_nru_state ! 0)
      \<and> clean res4 = Some 1"
      using nu nu2 cv mc nm c4 by auto
  qed
qed

section \<open>Properties of the signal interception\<close>

text \<open>
  Claim C4.  A call of \<open>sigaction(SIGSEGV, act, oldact)\<close> or \<open>signal(SIGSEGV, handler)\<close>
  from outside the library (\<open>is_internal = 0\<close>, the thread not inside library code) reports
  success (\<open>sigaction\<close> returns 0) and hands back the previously recorded handler
  information (stored in \<open>*oldact\<close> when \<open>oldact\<close> is given, returned by \<open>signal\<close>);
  the caller's handler (\<open>*act\<close> when \<open>act\<close> is given, \<open>handler\<close>) goes into
  \<open>jm_prev_segfaulter\<close> and the value that was there moves to \<open>jm_prev_prev_segfaulter\<close>
  (\<open>signal\<close> moves the handler fields); libc's \<open>sigaction\<close> and \<open>signal\<close> are not
  called and the kernel's dispositions stay as they are.
\<close>

theorem sigsegv_installation_is_shadowed:
  assumes ext: "is_internal g = 0" "internal_depth st = 0"
  shows "sigaction lc g st SIGSEGV act want_old
           = (0,
              (if want_old then Some (jm_prev_segfaulter st) else None),
              (case act of
                 Some a \<Rightarrow> st\<lparr> jm_prev_prev_segfaulter := jm_prev_segfaulter st, jm_prev_segfaulter := a \<rparr>
               | None \<Rightarrow> st))
         \<and> signal lc g st SIGSEGV handler
           = (sa_handler (jm_prev_segfaulter st),
              st\<lparr> jm_prev_segfaulter := (jm_prev_segfaulter st)\<lparr> sa_handler := handler \<rparr>,
                 jm_prev_prev_segfaulter := (jm_prev_prev_segfaulter st)
                                               \<lparr> sa_handler := sa_handler (jm_prev_segfaulter st) \<rparr> \<rparr>)
         \<and> kernel (snd (snd (sigaction lc g st SIGSEGV act want_old))) = kernel st
         \<and> libc_calls (snd (snd (sigaction lc g st SIGSEGV act want_old))) = libc_calls st
         \<and> kernel (snd (signal lc g st SIGSEGV handler)) = kernel st
         \<and> libc_calls (snd (signal lc g st SIGSEGV handler)) = libc_calls st"
  using ext
  by (cases act)
     (simp_all add: sigaction_def signal_def JM_ENTER_def JM_RETURN_def JM_INTERNAL_INVOCATION_def Let_def)

theorem sigsegv_installation_is_shadowed_witness:
  "is_internal example_globals = 0 \<and> internal_depth example_signal_state = 0
   \<and> fst (sigaction example_libc example_globals example_signal_state SIGSEGV
             (Some \<lparr> sa_handler = 0x4000, sa_mask = {}, sa_flags = 4 \<rparr>) True) = 0
   \<and> fst (snd (sigaction example_libc example_globals example_signal_state SIGSEGV
             (Some \<lparr> sa_handler = 0x4000, sa_mask = {}, sa_flags = 4 \<rparr>) True))
       = Some \<lparr> sa_handler = 0, sa_mask = {}, sa_flags = 0 \<rparr>
   \<and> jm_prev_segfaulter (snd (snd (sigaction example_libc example_globals example_signal_state SIGSEGV
             (Some \<lparr> sa_handler = 0x4000, sa_mask = {}, sa_flags = 4 \<rparr>) True)))
       = \<lparr> sa_handler = 0x4000, sa_mask = {}, sa_flags = 4 \<rparr>
   \<and> sa_handler (kernel (snd (snd (sigaction example_libc example_globals example_signal_state SIGSEGV
             (Some \<lparr> sa_handler = 0x4000, sa_mask = {}, sa_flags = 4 \<rparr>) True))) 11) = 0x7000
   \<and> fst (signal example_libc example_globals example_signal_state SIGSEGV 0x4000) = 0
   \<and> sa_handler (kernel (snd (signal example_libc example_globals example_signal_state SIGSEGV 0x4000)) 11)
       = 0x7000"
proof -
  have e: "is_internal example_globals = 0" "internal_depth example_signal_state = 0"
    by (simp_all add: example_globals_def example_signal_state_def)
  note t = sigsegv_installation_is_shadowed[OF e, of example_libc
             "Some \<lparr> sa_handler = 0x4000, sa_mask = {}, sa_flags = 4 \<rparr>" True "0x4000"]
  have k: "sa_handler (kernel example_signal_state 11) = 0x7000"
    "jm_prev_segfaulter example_signal_state = \<lparr> sa_handler = 0, sa_mask = {}, sa_flags = 0 \<rparr>"
    by (simp_all add: example_signal_state_def)
  show ?thesis
    using e k by (simp add: t)
qed

section \<open>Faults outside the managed region\<close>






section \<open>Where an intercepted mmap may land\<close>

text \<open>What the checks of \<open>jm_mmap\<close> do establish: the address handed to an external caller
  that gave no start is neither \<open>MAP_FAILED\<close> nor an address of the managed region.\<close>

lemma jm_mmap_start_outside:
  assumes "jm_mmap env g 0 0 len prot flags fd offset = Inr address" and "is_internal g = 0"
  shows "address \<noteq> MAP_FAILED \<and> \<not> in_managed_region g address"
  using assms
  by (auto simp: jm_mmap_def Let_def split: option.splits if_splits)

text \<open>
  Claim C6.  The mapping \<open>[addr, addr + length)\<close> returned to an external caller that gave no
  start is to lie entirely below or entirely above the managed region.  The code compares only
  the mapping's first address with the region.  An external \<open>mmap(NULL, 0x2000, ...)\<close> for which
  the kernel returns \<open>0xFF000\<close> gets that address back although the second page of the
  mapping is the first page of the managed region \<open>[0x100000, 0x110000)\<close>.
\<close>

theorem mmap_straddles_managed_region:
  "mmap example_mmap_env example_globals 0 0 0x2000 3 0x22 (- 1) 0 = Inr 0xFF000
   \<and> (0xFF000 :: addr) < memregion example_globals
   \<and> memregion example_globals < 0xFF000 + 0x2000
   \<and> in_managed_region example_globals 0x100000
   \<and> (0xFF000 :: addr) \<le> 0x100000 \<and> (0x100000 :: addr) < 0xFF000 + 0x2000"
  by (simp add: mmap_def jm_mmap_def example_mmap_env_def example_globals_def example_brk_def
                example_libc_mmap_def in_managed_region_def MAP_FAILED_def Let_def)

section \<open>Properties of the minimum page size\<close>







text \<open>Where the quotient \<open>P / max_map_count\<close> is not whole, the code rounds it down before it
  rounds up to a page: for \<open>P = 8193\<close> and two mappings it returns one page of 4096 bytes, the
  formula over the reals two.\<close>

lemma minimum_page_size_truncates_quotient:
  "jm_get_minimum_jm_page_size example_globals 0 (Holds 2) (Inr 8193) = Inr (4096, 4096)
   \<and> spec_minimum_page_size 8193 2 4096 = 8192"
  by (simp add: jm_get_minimum_jm_page_size_def jm_get_maximum_map_count_def example_globals_def
                spec_minimum_page_size_def)

section \<open>Properties of the chunked reads and writes\<close>

















text \<open>A buffer that ends exactly at the end of the managed region lies fully inside it, and
  is passed through all the same: the test is \<open>baseaddr+totalcount >= memregion+extent\<close>.\<close>

lemma buffer_up_to_region_end_is_passed_through:
  "rw_pass_through example_globals 0x108000 0x8000
   \<and> read_or_write example_globals 0x108000 0x8000 [0x8000] = Inr (0x8000, [])"
  by (simp add: read_or_write_def rw_pass_through_def example_globals_def)

end
